theory Spec2Isabelle
  imports Complex_Main "HOL-Library.AList"
begin

section \<open>Phaser.Sound and Phaser.SoundManager (build/modules/sound.js)\<close>

text \<open>
  A shallow embedding of the playback state machine of \<^verbatim>\<open>Phaser.Sound\<close> and of the
  registry and decode watch of \<^verbatim>\<open>Phaser.SoundManager\<close>.

  Conventions of the embedding:
  \<^item> JavaScript numbers are real numbers (no rounding, no NaN); an optional argument is
    an \<open>option\<close>, with \<open>None\<close> for \<^verbatim>\<open>undefined\<close>.
  \<^item> A private field \<^verbatim>\<open>_x\<close> of the source is the record field \<open>priv_x\<close>; the field
    \<^verbatim>\<open>context\<close> is \<open>audio_context\<close> (\<open>True\<close> when the reference is not null) and the field
    \<^verbatim>\<open>name\<close> is \<open>sound_name\<close>.
  \<^item> Each \<^verbatim>\<open>Phaser.Signal\<close> dispatch appends to the log \<open>events\<close>; each call into the
    backend voice, the asset cache, the manager's decoder or the console appends to the log
    \<open>commands\<close>. A method that changes no field and appends to neither log did nothing.
    What the listeners of a signal do when it is dispatched is not part of the model.
  \<^item> The gain node is its \<^verbatim>\<open>gain.value\<close>, the field \<open>gain\<close>; how the nodes are wired
    (\<^verbatim>\<open>externalNode\<close>, \<^verbatim>\<open>masterGainNode\<close>) is left out.
  \<^item> What a method reads from its collaborators (the game clock, the asset cache, the audio
    element, the manager's global volume and mute) is the \<open>env\<close> argument of that call.
  \<^item> A \<^verbatim>\<open>TypeError\<close> from a property access on \<^verbatim>\<open>null\<close> is the outcome \<open>Threw\<close>, which
    carries the state the object was left in.
  \<^item> \<^verbatim>\<open>this.markers\<close> is a plain object: its own keys are an association list in insertion
    order, and \<^verbatim>\<open>this.markers[name]\<close> also finds what the object inherits from
    \<^verbatim>\<open>Object.prototype\<close> (\<^verbatim>\<open>toString\<close>, \<^verbatim>\<open>constructor\<close>, ...). Which names the engine's
    \<^verbatim>\<open>Object.prototype\<close> defines is read from the \<open>env\<close>. A \<^verbatim>\<open>play\<close> of such a name takes
    the inherited value for a marker and goes on with \<^verbatim>\<open>undefined\<close> for its start, volume
    and duration; the number fields of the model do not hold \<^verbatim>\<open>undefined\<close>, and the outcome
    \<open>Undefined\<close> marks that the call has left the model there. Adding a marker under the
    name \<^verbatim>\<open>__proto__\<close> is outside the model as well.
\<close>

subsection \<open>Data\<close>

record marker =
  m_name :: string
  m_start :: real
  m_stop :: real
  m_volume :: real
  m_duration :: real
  m_durationMS :: real
  m_loop :: bool

datatype event =
    OnDecoded
  | OnPlay
  | OnPause
  | OnResume
  | OnLoop
  | OnStop string
  | OnMute
  | OnMarkerComplete string
  | OnFadeComplete real

datatype command =
    CreateSource
  | SourceLoop
  | SourceOnEnded bool
  | SourceStart real "real option"
  | SourceStop
  | SourceDisconnect
  | ElementPlay
  | ElementPause
  | ElementSeek real
  | ElementLoop bool
  | ElementMuted bool
  | ElementVolume real
  | Decode string
  | ReloadSound string
  | Warn string

text \<open>The object held in \<^verbatim>\<open>_sound\<close>: a Web Audio buffer source or the cache's audio element.\<close>

datatype voice = BufferSource | AudioElement

text \<open>The tween created by \<^verbatim>\<open>fadeTo\<close>: its target volume, its duration and whether it runs.\<close>

record tween =
  tw_volume :: real
  tw_duration :: real
  tw_isRunning :: bool

record cache_sound =
  isDecoding :: bool
  locked :: bool

record env =
  time :: real
  checkSoundKey :: "string \<Rightarrow> bool"
  isSoundDecoded :: "string \<Rightarrow> bool"
  isSoundReady :: "string \<Rightarrow> bool"
  getSound :: "string \<Rightarrow> cache_sound option"
  cocoonJS :: bool
  readyState :: "string \<Rightarrow> nat"
  element_currentTime :: "string \<Rightarrow> real"
  data_duration :: "string \<Rightarrow> real"
  sound_volume :: real
  sound_mute :: bool
  object_prototype :: "string \<Rightarrow> bool"

record sound =
  sound_name :: string
  key :: string
  loop :: bool
  markers :: "(string \<times> marker) list"
  audio_context :: bool
  totalDuration :: real
  startTime :: real
  currentTime :: real
  duration :: real
  durationMS :: real
  position :: real
  stopTime :: real
  paused :: bool
  pausedPosition :: real
  pausedTime :: real
  isPlaying :: bool
  currentMarker :: string
  fadeTween :: "tween option"
  replaced_tweens :: "tween list"
  pendingPlayback :: bool
  override :: bool
  allowMultiple :: bool
  playOnce :: bool
  usingWebAudio :: bool
  usingAudioTag :: bool
  gain :: real
  priv_sound :: "voice option"
  priv_globalVolume :: real
  priv_markedToDelete :: bool
  priv_pendingStart :: bool
  priv_removeFromSoundManager :: bool
  priv_sourceId :: nat
  priv_volume :: real
  priv_buffer :: bool
  priv_muted :: bool
  priv_tempMarker :: string
  priv_tempPosition :: real
  priv_tempVolume :: real
  priv_tempPause :: "real option"
  priv_muteVolume :: real
  priv_tempLoop :: bool
  priv_onDecodedEventDispatched :: bool
  in_manager :: bool
  events :: "event list"
  commands :: "command list"

text \<open>
  \<open>in_manager\<close> records whether the object is an element of the manager's \<^verbatim>\<open>_sounds\<close>
  array, which is what \<^verbatim>\<open>game.sound.remove(this)\<close> looks for. \<open>replaced_tweens\<close> holds the
  tweens that an earlier \<^verbatim>\<open>fadeTo\<close> created and a later one replaced in \<^verbatim>\<open>fadeTween\<close>: nothing
  stops them, and the tween manager still runs them.
\<close>

text \<open>
  How a call ends: it returns, it throws a \<^verbatim>\<open>TypeError\<close>, or it goes on with \<^verbatim>\<open>undefined\<close>
  in its number fields, where the model stops following it. Each carries the state reached.
\<close>

datatype 'a outcome = Returned 'a | Threw 'a | Undefined 'a

fun state_of :: "'a outcome \<Rightarrow> 'a" where
  "state_of (Returned s) = s"
| "state_of (Threw s) = s"
| "state_of (Undefined s) = s"

fun and_then :: "'a outcome \<Rightarrow> ('a \<Rightarrow> 'a outcome) \<Rightarrow> 'a outcome" where
  "and_then (Returned s) f = f s"
| "and_then (Threw s) f = Threw s"
| "and_then (Undefined s) f = Undefined s"

definition dispatch :: "event \<Rightarrow> sound \<Rightarrow> sound" where
  "dispatch e s = s\<lparr>events := events s @ [e]\<rparr>"

definition emit :: "command \<Rightarrow> sound \<Rightarrow> sound" where
  "emit c s = s\<lparr>commands := commands s @ [c]\<rparr>"

subsection \<open>Construction\<close>

text \<open>
  \<^verbatim>\<open>new Phaser.Sound(game, key, volume, loop, connect)\<close>. The two backend flags are read
  from the manager, whose context is not null when it uses Web Audio; \<open>cached\<close> is
  \<^verbatim>\<open>cache.getSound(key) && cache.isSoundReady(key)\<close> and \<open>d\<close> the \<^verbatim>\<open>duration\<close> of the
  cached audio element, if it has one.
\<close>

definition new_Sound ::
  "bool \<Rightarrow> bool \<Rightarrow> bool \<Rightarrow> real option \<Rightarrow> string \<Rightarrow> real option \<Rightarrow> bool option \<Rightarrow> sound" where
  "new_Sound web tag cached d k vol lp =
     (let v = (case vol of None \<Rightarrow> 1 | Some x \<Rightarrow> x);
          l = (case lp of None \<Rightarrow> False | Some x \<Rightarrow> x);
          elem = (\<not> web \<and> tag \<and> cached)
      in \<lparr> sound_name = k, key = k, loop = l, markers = [], audio_context = web,
           totalDuration = (if elem then (case d of None \<Rightarrow> 0 | Some x \<Rightarrow> x) else 0),
           startTime = 0, currentTime = 0, duration = 0, durationMS = 0, position = 0,
           stopTime = 0, paused = False, pausedPosition = 0, pausedTime = 0,
           isPlaying = False, currentMarker = [], fadeTween = None, replaced_tweens = [],
           pendingPlayback = False, override = False, allowMultiple = False,
           playOnce = False, usingWebAudio = web, usingAudioTag = tag,
           gain = (if web then v else 0),
           priv_sound = (if elem then Some AudioElement else None),
           priv_globalVolume = 1, priv_markedToDelete = False, priv_pendingStart = False,
           priv_removeFromSoundManager = False, priv_sourceId = 0, priv_volume = v,
           priv_buffer = False, priv_muted = False, priv_tempMarker = [],
           priv_tempPosition = 0, priv_tempVolume = 0, priv_tempPause = Some 0,
           priv_muteVolume = 0, priv_tempLoop = False,
           priv_onDecodedEventDispatched = False, in_manager = False,
           events = [], commands = [] \<rparr>)"

subsection \<open>Markers\<close>

definition addMarker ::
  "string \<Rightarrow> real \<Rightarrow> real option \<Rightarrow> real option \<Rightarrow> bool option \<Rightarrow> sound \<Rightarrow> sound" where
  "addMarker name start dur vol lp s =
     (let d = (case dur of None \<Rightarrow> 1 | Some x \<Rightarrow> x);
          v = (case vol of None \<Rightarrow> 1 | Some x \<Rightarrow> x);
          l = (case lp of None \<Rightarrow> False | Some x \<Rightarrow> x)
      in s\<lparr>markers := AList.update name
            \<lparr> m_name = name, m_start = start, m_stop = start + d, m_volume = v,
              m_duration = d, m_durationMS = d * 1000, m_loop = l \<rparr> (markers s)\<rparr>)"

definition removeMarker :: "string \<Rightarrow> sound \<Rightarrow> sound" where
  "removeMarker name s = s\<lparr>markers := AList.delete name (markers s)\<rparr>"

subsection \<open>The volume and mute properties\<close>

text \<open>
  Modelled from the spec: \<^verbatim>\<open>game.math.clamp\<close> (Phaser.Math is not among the sources);
  the spec says that setting the volume clamps to [0,1] for the element-based backend.
\<close>

definition clamp :: "real \<Rightarrow> real \<Rightarrow> real \<Rightarrow> real" where
  "clamp v lo hi = (if v < lo then lo else if hi < v then hi else v)"

definition volume :: "sound \<Rightarrow> real" where
  "volume s = priv_volume s"

definition set_volume :: "real \<Rightarrow> sound \<Rightarrow> sound" where
  "set_volume v s =
     (let val = (if usingAudioTag s then clamp v 0 1 else v) in
      if priv_muted s then s\<lparr>priv_muteVolume := val\<rparr>
      else
        (let s1 = s\<lparr>priv_tempVolume := val, priv_volume := val\<rparr> in
         if usingWebAudio s then s1\<lparr>gain := val\<rparr>
         else if usingAudioTag s \<and> priv_sound s \<noteq> None
           then emit (ElementVolume (priv_globalVolume s * val)) s1
         else s1))"

definition mute :: "env \<Rightarrow> sound \<Rightarrow> bool" where
  "mute e s = (priv_muted s \<or> sound_mute e)"

definition set_mute :: "bool \<Rightarrow> sound \<Rightarrow> sound" where
  "set_mute val s =
     (if val = priv_muted s then s
      else if val then
        (let s1 = s\<lparr>priv_muted := True, priv_muteVolume := priv_tempVolume s\<rparr> in
         dispatch OnMute
           (if usingWebAudio s then s1\<lparr>gain := 0\<rparr>
            else if usingAudioTag s \<and> priv_sound s \<noteq> None then emit (ElementVolume 0) s1
            else s1))
      else
        (let s1 = s\<lparr>priv_muted := False\<rparr> in
         dispatch OnMute
           (if usingWebAudio s then s1\<lparr>gain := priv_muteVolume s\<rparr>
            else if usingAudioTag s \<and> priv_sound s \<noteq> None
              then emit (ElementVolume (priv_muteVolume s)) s1
            else s1)))"

subsection \<open>Backend voice helpers\<close>

definition createSourceAndConnect :: "sound \<Rightarrow> sound outcome" where
  "createSourceAndConnect s =
     (if \<not> audio_context s then Threw s
      else Returned (emit CreateSource
             (s\<lparr>priv_sound := Some BufferSource, priv_buffer := True,
                priv_sourceId := priv_sourceId s + 1\<rparr>)))"

definition stopSourceAndDisconnect :: "sound \<Rightarrow> sound" where
  "stopSourceAndDisconnect s =
     (emit SourceDisconnect (emit SourceStop (emit (SourceOnEnded False) s)))
       \<lparr>priv_sound := None\<rparr>"

text \<open>The release of the voice at the head of \<^verbatim>\<open>stop\<close> and of a restarting \<^verbatim>\<open>play\<close>.\<close>

definition release_voice :: "sound \<Rightarrow> sound" where
  "release_voice s =
     (if usingWebAudio s then stopSourceAndDisconnect s
      else if usingAudioTag s then emit (ElementSeek 0) (emit ElementPause s)
      else s)"

subsection \<open>stop\<close>

text \<open>
  Modelled from the spec: \<^verbatim>\<open>fadeTween.stop()\<close> (Phaser.Tween is not among the sources);
  the spec says that \<^verbatim>\<open>stop\<close> cancels any fade in flight.
\<close>

definition tween_stop :: "tween option \<Rightarrow> tween option" where
  "tween_stop t = (case t of None \<Rightarrow> None | Some tw \<Rightarrow> Some (tw\<lparr>tw_isRunning := False\<rparr>))"

definition stop :: "sound \<Rightarrow> sound" where
  "stop s =
     (let s1 = (if isPlaying s \<and> priv_sound s \<noteq> None then release_voice s else s);
          s2 = s1\<lparr>pendingPlayback := False, isPlaying := False\<rparr>
      in if \<not> paused s2 then
           (let prevMarker = currentMarker s2;
                s3 = (if prevMarker \<noteq> [] then dispatch (OnMarkerComplete prevMarker) s2 else s2);
                s4 = s3\<lparr>currentMarker := [], fadeTween := tween_stop (fadeTween s3)\<rparr>
            in dispatch (OnStop prevMarker) s4)
         else s2)"

subsection \<open>play\<close>

text \<open>
  \<^verbatim>\<open>this.markers[marker]\<close>: a marker the Sound was given, a truthy value inherited from
  \<^verbatim>\<open>Object.prototype\<close>, or \<^verbatim>\<open>undefined\<close>.
\<close>

datatype slot = Own marker | Inherited | Missing

definition markers_get :: "env \<Rightarrow> (string \<times> marker) list \<Rightarrow> string \<Rightarrow> slot" where
  "markers_get e ms mk =
     (case map_of ms mk of
        Some m \<Rightarrow> Own m
      | None \<Rightarrow> if object_prototype e mk then Inherited else Missing)"

text \<open>A marker was named and exists: the playback values default to the marker's.\<close>

definition play_marker :: "string \<Rightarrow> marker \<Rightarrow> real option \<Rightarrow> bool option \<Rightarrow> sound \<Rightarrow> sound" where
  "play_marker mk m vol lp s =
     (let s1 = set_volume (m_volume m) (s\<lparr>currentMarker := mk, position := m_start m\<rparr>);
          s2 = s1\<lparr>loop := m_loop m, duration := m_duration m, durationMS := m_durationMS m\<rparr>;
          s3 = (case vol of None \<Rightarrow> s2 | Some v \<Rightarrow> set_volume v s2);
          s4 = (case lp of None \<Rightarrow> s3 | Some l \<Rightarrow> s3\<lparr>loop := l\<rparr>)
      in s4\<lparr>priv_tempMarker := mk, priv_tempPosition := position s4,
            priv_tempVolume := volume s4, priv_tempLoop := loop s4\<rparr>)"

text \<open>No marker was named: the whole clip, from \<open>pos\<close>.\<close>

definition play_whole :: "real option \<Rightarrow> real option \<Rightarrow> bool option \<Rightarrow> sound \<Rightarrow> sound" where
  "play_whole pos vol lp s =
     (let p = (case pos of None \<Rightarrow> 0 | Some x \<Rightarrow> x);
          v = (case vol of None \<Rightarrow> priv_volume s | Some x \<Rightarrow> x);
          l = (case lp of None \<Rightarrow> loop s | Some x \<Rightarrow> x);
          s1 = set_volume v (s\<lparr>position := max 0 p\<rparr>)
      in s1\<lparr>loop := l, duration := 0, durationMS := 0, priv_tempMarker := [],
            priv_tempPosition := p, priv_tempVolume := v, priv_tempLoop := l\<rparr>)"

text \<open>The Web Audio branch once the asset is decoded and the source is created.\<close>

definition play_source :: "env \<Rightarrow> string \<Rightarrow> bool \<Rightarrow> sound \<Rightarrow> sound" where
  "play_source e mk onPlay s =
     (let s1 = (if loop s \<and> mk = [] then emit SourceLoop s else s);
          s2 = (if \<not> loop s1 \<and> mk = [] then emit (SourceOnEnded True) s1 else s1);
          s3 = s2\<lparr>totalDuration := data_duration e (key s)\<rparr>;
          s4 = (if duration s3 = 0
                then s3\<lparr>duration := totalDuration s3,
                        durationMS := of_int \<lceil>totalDuration s3 * 1000\<rceil>\<rparr>
                else s3);
          s5 = (if loop s4 \<and> mk = [] then emit (SourceStart 0 None) s4
                else emit (SourceStart (position s4) (Some (duration s4))) s4);
          s6 = s5\<lparr>isPlaying := True, paused := False, startTime := time e, currentTime := 0,
                  stopTime := time e + durationMS s5\<rparr>
      in if onPlay then dispatch OnPlay s6 else s6)"

text \<open>The audio element branch once the element is ready.\<close>

definition play_element :: "env \<Rightarrow> bool \<Rightarrow> sound \<Rightarrow> sound" where
  "play_element e onPlay s =
     (let s1 = emit (ElementLoop (loop s)) (emit ElementPlay s);
          s2 = s1\<lparr>totalDuration := data_duration e (key s)\<rparr>;
          s3 = (if duration s2 = 0
                then s2\<lparr>duration := totalDuration s2, durationMS := totalDuration s2 * 1000\<rparr>
                else s2);
          s4 = s3\<lparr>priv_globalVolume := sound_volume e\<rparr>;
          s5 = emit (ElementMuted (priv_muted s4)) (emit (ElementSeek (position s4)) s4);
          s6 = (if priv_muted s5 \<or> sound_mute e then emit (ElementVolume 0) s5
                else emit (ElementVolume (priv_volume s5 * priv_globalVolume s5)) s5);
          s7 = s6\<lparr>priv_pendingStart := (currentMarker s6 = []), isPlaying := True,
                  paused := False, priv_tempPause := Some 0, startTime := time e,
                  currentTime := 0, stopTime := time e + durationMS s6\<rparr>
      in if onPlay then dispatch OnPlay s7 else s7)"

definition play_backend :: "env \<Rightarrow> string \<Rightarrow> bool \<Rightarrow> sound \<Rightarrow> sound outcome" where
  "play_backend e mk onPlay s =
     (if usingWebAudio s then
        (if isSoundDecoded e (key s)
         then and_then (createSourceAndConnect s) (\<lambda>s'. Returned (play_source e mk onPlay s'))
         else
           (let s1 = s\<lparr>pendingPlayback := True\<rparr> in
            Returned (case getSound e (key s) of
                        None \<Rightarrow> s1
                      | Some c \<Rightarrow> if \<not> isDecoding c then emit (Decode (key s)) s1 else s1)))
      else if (case getSound e (key s) of None \<Rightarrow> False | Some c \<Rightarrow> locked c)
        then Returned ((emit (ReloadSound (key s)) s)\<lparr>pendingPlayback := True\<rparr>)
      else if priv_sound s \<noteq> None \<and> (cocoonJS e \<or> readyState e (key s) = 4)
        then Returned (play_element e onPlay s)
      else Returned (s\<lparr>pendingPlayback := True\<rparr>))"

definition play_once :: "sound \<Rightarrow> sound" where
  "play_once s =
     (if playOnce s then
        (if loop s
         then emit (Warn (''Phaser.Sound.play: audio clip '' @ sound_name s
                            @ '' cannot be deleted while looping.'')) s
         else s)
          \<lparr>priv_markedToDelete := True, priv_removeFromSoundManager := True\<rparr>
      else s)"

text \<open>The restart block: an attached, playing single voice is released before anything else.\<close>

definition play_release :: "bool \<Rightarrow> sound \<Rightarrow> sound" where
  "play_release forceRestart s =
     (if priv_sound s \<noteq> None \<and> isPlaying s \<and> \<not> allowMultiple s \<and> (override s \<or> forceRestart)
      then (release_voice s)\<lparr>isPlaying := False\<rparr>
      else s)"

definition play ::
  "env \<Rightarrow> string option \<Rightarrow> real option \<Rightarrow> real option \<Rightarrow> bool option \<Rightarrow> bool option
     \<Rightarrow> bool option \<Rightarrow> sound \<Rightarrow> sound outcome" where
  "play e marker pos vol lp forceRestart onPlay s =
     (let mk = (case marker of None \<Rightarrow> [] | Some m \<Rightarrow> m);
          fr = (case forceRestart of None \<Rightarrow> True | Some b \<Rightarrow> b);
          op = (case onPlay of None \<Rightarrow> True | Some b \<Rightarrow> b)
      in if isPlaying s \<and> \<not> allowMultiple s \<and> \<not> fr \<and> \<not> override s then Returned s
         else
           (let s1 = play_release fr s in
            if mk = [] \<and> markers s1 \<noteq> [] then Returned s1
            else if mk \<noteq> [] then
              (case markers_get e (markers s1) mk of
                 Own m \<Rightarrow>
                   and_then (play_backend e mk op (play_marker mk m vol lp s1))
                     (\<lambda>s'. Returned (play_once s'))
               | Inherited \<Rightarrow> Undefined (s1\<lparr>currentMarker := mk\<rparr>)
               | Missing \<Rightarrow>
                   Returned (emit (Warn (''Phaser.Sound.play: audio marker '' @ mk
                                          @ '' doesn't exist'')) s1))
            else
              and_then (play_backend e mk op (play_whole pos vol lp s1))
                (\<lambda>s'. Returned (play_once s'))))"

definition loopFull :: "env \<Rightarrow> real option \<Rightarrow> sound \<Rightarrow> sound outcome" where
  "loopFull e vol s = play e None (Some 0) vol (Some True) None None s"

definition restart ::
  "env \<Rightarrow> string option \<Rightarrow> real option \<Rightarrow> real option \<Rightarrow> bool option \<Rightarrow> sound \<Rightarrow> sound outcome" where
  "restart e marker pos vol lp s =
     play e (Some (case marker of None \<Rightarrow> [] | Some m \<Rightarrow> m))
       (Some (case pos of None \<Rightarrow> 0 | Some p \<Rightarrow> p))
       (Some (case vol of None \<Rightarrow> 1 | Some v \<Rightarrow> if v = 0 then 1 else v))
       (Some (case lp of None \<Rightarrow> False | Some l \<Rightarrow> l)) (Some True) None s"

subsection \<open>pause and resume\<close>

text \<open>\<^verbatim>\<open>_sound.currentTime\<close>: a buffer source has no such property.\<close>

fun voice_currentTime :: "env \<Rightarrow> string \<Rightarrow> voice \<Rightarrow> real option" where
  "voice_currentTime e k BufferSource = None"
| "voice_currentTime e k AudioElement = Some (element_currentTime e k)"

definition pause :: "env \<Rightarrow> sound \<Rightarrow> sound outcome" where
  "pause e s =
     (if isPlaying s then
        (let s1 = s\<lparr>paused := True, pausedPosition := currentTime s, pausedTime := time e\<rparr> in
         case priv_sound s1 of
           None \<Rightarrow> Threw s1
         | Some v \<Rightarrow>
             Returned (stop (dispatch OnPause (s1\<lparr>priv_tempPause := voice_currentTime e (key s) v\<rparr>))))
      else Returned s)"

definition resume_source :: "sound \<Rightarrow> sound outcome" where
  "resume_source s =
     (let p = max 0 (position s + pausedPosition s / 1000) in
      and_then (createSourceAndConnect s)
        (\<lambda>s1. let s2 = (if currentMarker s1 = []
                         then (if loop s1 then emit SourceLoop s1
                               else emit (SourceOnEnded True) s1)
                         else s1);
                   d = duration s2 - pausedPosition s2 / 1000
               in Returned (if loop s2 \<and> currentMarker s2 = []
                            then emit (SourceStart p None) s2
                            else emit (SourceStart p (Some d)) s2)))"

definition resume_element :: "sound \<Rightarrow> sound outcome" where
  "resume_element s =
     (let s1 = s\<lparr>priv_pendingStart := (currentMarker s = [])\<rparr> in
      case (priv_sound s1, priv_tempPause s1) of
        (Some v, Some t) \<Rightarrow>
          Returned (emit ElementPlay ((emit (ElementSeek t) s1)\<lparr>priv_tempPause := Some 0\<rparr>))
      | _ \<Rightarrow> Threw s1)"

definition resume :: "env \<Rightarrow> sound \<Rightarrow> sound outcome" where
  "resume e s =
     (if paused s then
        and_then (if usingWebAudio s then resume_source s else resume_element s)
          (\<lambda>s1. Returned (dispatch OnResume
                   (s1\<lparr>isPlaying := True, paused := False,
                       startTime := startTime s1 + (time e - pausedTime s1)\<rparr>)))
      else Returned s)"

subsection \<open>destroy\<close>

definition destroy_clear :: "sound \<Rightarrow> sound" where
  "destroy_clear s = s\<lparr>markers := [], audio_context := False, priv_buffer := False\<rparr>"

definition destroy_keep :: "sound \<Rightarrow> sound" where
  "destroy_keep s =
     destroy_clear (stop (s\<lparr>priv_markedToDelete := True, priv_removeFromSoundManager := False\<rparr>))"

text \<open>
  \<^verbatim>\<open>game.sound.remove(this)\<close>, seen from the Sound: if the manager holds the object it calls
  \<^verbatim>\<open>destroy(false)\<close> on it and splices it out of \<^verbatim>\<open>_sounds\<close>.
\<close>

definition manager_remove :: "sound \<Rightarrow> sound" where
  "manager_remove s = (if in_manager s then (destroy_keep s)\<lparr>in_manager := False\<rparr> else s)"

definition destroy :: "bool option \<Rightarrow> sound \<Rightarrow> sound" where
  "destroy remove s =
     (let rm = (case remove of None \<Rightarrow> True | Some b \<Rightarrow> b) in
      if rm then
        manager_remove (stop (s\<lparr>priv_markedToDelete := True, priv_removeFromSoundManager := True\<rparr>))
      else destroy_keep s)"

subsection \<open>update\<close>

definition update_complete :: "env \<Rightarrow> sound \<Rightarrow> sound outcome" where
  "update_complete e s =
     (if usingWebAudio s then
        (if loop s then
           (let s1 = (dispatch OnLoop s)\<lparr>isPlaying := False\<rparr> in
            if currentMarker s1 = []
            then Returned (s1\<lparr>currentTime := 0, startTime := time e, isPlaying := True\<rparr>)
            else play e (Some (currentMarker s1)) (Some 0) (Some (volume s1)) (Some True)
                   (Some True) (Some False) (dispatch (OnMarkerComplete (currentMarker s1)) s1))
         else if currentMarker s \<noteq> [] then Returned (stop s)
         else Returned s)
      else if loop s then
        (let s1 = dispatch OnLoop s;
             s2 = (if currentMarker s1 = [] then s1\<lparr>currentTime := 0, startTime := time e\<rparr>
                   else s1);
             s3 = s2\<lparr>isPlaying := False\<rparr>
         in play e (Some (currentMarker s3)) (Some 0) (Some (volume s3)) (Some True)
              (Some True) (Some False) s3)
      else Returned (stop s))"

definition update_advance :: "env \<Rightarrow> sound \<Rightarrow> sound outcome" where
  "update_advance e s =
     (let s1 = s\<lparr>currentTime := time e - startTime s\<rparr> in
      if currentTime s1 \<ge> durationMS s1 then update_complete e s1 else Returned s1)"

text \<open>\<^verbatim>\<open>(this.paused ? this._tempPause : 0) || this.position || 0\<close>\<close>

definition pending_threshold :: "sound \<Rightarrow> real" where
  "pending_threshold s =
     (case (if paused s then priv_tempPause s else Some 0) of
        None \<Rightarrow> position s
      | Some t \<Rightarrow> if t \<noteq> 0 then t else position s)"

definition update_playing :: "env \<Rightarrow> sound \<Rightarrow> sound outcome" where
  "update_playing e s =
     (if isPlaying s then
        (if priv_pendingStart s then
           (case priv_sound s of
              None \<Rightarrow> Threw s
            | Some v \<Rightarrow>
                (case voice_currentTime e (key s) v of
                   None \<Rightarrow> Returned s
                 | Some ct \<Rightarrow>
                     if ct > pending_threshold s
                     then update_advance e
                            (s\<lparr>priv_pendingStart := False, startTime := time e - 1000 * ct,
                               stopTime := time e - 1000 * ct + durationMS s\<rparr>)
                     else Returned s))
         else update_advance e s)
      else Returned s)"

definition update :: "env \<Rightarrow> sound \<Rightarrow> sound outcome" where
  "update e s =
     (if \<not> checkSoundKey e (key s) then Returned (destroy None s)
      else
        (let s1 = (if isSoundDecoded e (key s) \<and> \<not> priv_onDecodedEventDispatched s
                   then (dispatch OnDecoded s)\<lparr>priv_onDecodedEventDispatched := True\<rparr>
                   else s)
         in and_then
              (if pendingPlayback s1 \<and> isSoundReady e (key s1)
               then play e (Some (priv_tempMarker s1)) (Some (priv_tempPosition s1))
                      (Some (priv_tempVolume s1)) (Some (priv_tempLoop s1)) None None
                      (s1\<lparr>pendingPlayback := False\<rparr>)
               else Returned s1)
              (update_playing e)))"

subsection \<open>Fades\<close>

definition fadeTo :: "real option \<Rightarrow> real option \<Rightarrow> sound \<Rightarrow> sound" where
  "fadeTo dur vol s =
     (if \<not> isPlaying s \<or> paused s \<or> vol = Some (volume s) then s
      else
        (case vol of
           None \<Rightarrow> emit (Warn ''Phaser.Sound.fadeTo: No Volume Specified.'') s
         | Some v \<Rightarrow>
             s\<lparr>fadeTween := Some \<lparr> tw_volume = v,
                   tw_duration = (case dur of None \<Rightarrow> 1000 | Some d \<Rightarrow> d),
                   tw_isRunning = True \<rparr>,
               replaced_tweens :=
                 (case fadeTween s of None \<Rightarrow> replaced_tweens s
                  | Some t \<Rightarrow> t # replaced_tweens s)\<rparr>))"

definition fadeComplete :: "sound \<Rightarrow> sound" where
  "fadeComplete s =
     (let s1 = dispatch (OnFadeComplete (volume s)) s in
      if volume s1 = 0 then stop s1 else s1)"

definition fadeOut :: "real option \<Rightarrow> sound \<Rightarrow> sound" where
  "fadeOut dur s = fadeTo dur (Some 0) s"

definition fadeIn :: "env \<Rightarrow> real option \<Rightarrow> bool option \<Rightarrow> string option \<Rightarrow> sound \<Rightarrow> sound outcome" where
  "fadeIn e dur lp marker s =
     (let l = (case lp of None \<Rightarrow> False | Some b \<Rightarrow> b);
          mk = (case marker of None \<Rightarrow> currentMarker s | Some m \<Rightarrow> m)
      in if paused s then Returned s
         else and_then (play e (Some mk) (Some 0) (Some 0) (Some l) None None s)
                (\<lambda>s'. Returned (fadeTo dur (Some 1) s')))"

text \<open>
  Modelled from the spec: the completion of the fade tween (Phaser.Tween is not among the
  sources). The spec says the interpolation utility drives \<^verbatim>\<open>volume\<close> to the target volume
  over the duration and that on completion "fade complete" is dispatched; a tween that
  \<^verbatim>\<open>stop\<close> has cancelled does neither.
\<close>

definition fadeTween_complete :: "sound \<Rightarrow> sound" where
  "fadeTween_complete s =
     (case fadeTween s of
        None \<Rightarrow> s
      | Some t \<Rightarrow>
          if tw_isRunning t
          then fadeComplete ((set_volume (tw_volume t) s)\<lparr>fadeTween := Some (t\<lparr>tw_isRunning := False\<rparr>)\<rparr>)
          else s)"

text \<open>
  Modelled from the spec: the same completion (Phaser.Tween is not among the sources) for a
  tween that a later \<^verbatim>\<open>fadeTo\<close> has replaced, the one at index \<open>i\<close> of \<open>replaced_tweens\<close>.
  \<^verbatim>\<open>fadeTo\<close> never stops the tween it replaces and \<^verbatim>\<open>fadeComplete\<close> listens to each, so
  it completes like any other.
\<close>

definition replaced_tween_complete :: "nat \<Rightarrow> sound \<Rightarrow> sound" where
  "replaced_tween_complete i s =
     (if i < length (replaced_tweens s) \<and> tw_isRunning (replaced_tweens s ! i)
      then fadeComplete
             ((set_volume (tw_volume (replaced_tweens s ! i)) s)
                \<lparr>replaced_tweens :=
                   (replaced_tweens s)[i := (replaced_tweens s ! i)\<lparr>tw_isRunning := False\<rparr>]\<rparr>)
      else s)"

text \<open>Some tween of the Sound is still running.\<close>

definition fade_in_flight :: "sound \<Rightarrow> bool" where
  "fade_in_flight s =
     ((case fadeTween s of None \<Rightarrow> False | Some t \<Rightarrow> tw_isRunning t)
      \<or> list_ex tw_isRunning (replaced_tweens s))"

subsection \<open>Callbacks from the cache and the backend\<close>

definition soundHasUnlocked :: "string \<Rightarrow> real \<Rightarrow> sound \<Rightarrow> sound" where
  "soundHasUnlocked k d s =
     (if k = key s then s\<lparr>priv_sound := Some AudioElement, totalDuration := d\<rparr> else s)"

definition onEndedHandler :: "sound \<Rightarrow> sound outcome" where
  "onEndedHandler s =
     (case priv_sound s of
        None \<Rightarrow> Threw s
      | Some v \<Rightarrow>
          (let s1 = stop ((emit (SourceOnEnded False) s)
                            \<lparr>isPlaying := False, currentTime := durationMS s\<rparr>);
               s2 = (if playOnce s1
                     then s1\<lparr>priv_markedToDelete := True, priv_removeFromSoundManager := True\<rparr>
                     else s1)
           in if priv_markedToDelete s2 then
                (let s3 = emit SourceDisconnect s2 in
                 Returned (if priv_removeFromSoundManager s3 then manager_remove s3
                           else destroy_clear s3))
              else Returned s2))"

subsection \<open>SoundManager: registry\<close>

text \<open>
  The part of the manager the registry and the decode watch need. \<open>calls\<close> is the log of
  watch callbacks invoked, each callback being named by a number.
\<close>

record manager =
  noAudio :: bool
  sm_usingWebAudio :: bool
  sm_usingAudioTag :: bool
  priv_sounds :: "sound list"
  priv_watchList :: "string list"
  priv_watching :: bool
  priv_watchCallback :: "nat option"
  calls :: "nat list"

definition new_SoundManager :: "bool \<Rightarrow> bool \<Rightarrow> bool \<Rightarrow> manager" where
  "new_SoundManager none web tag =
     \<lparr> noAudio = none, sm_usingWebAudio = web, sm_usingAudioTag = tag, priv_sounds = [],
       priv_watchList = [], priv_watching = False, priv_watchCallback = None, calls = [] \<rparr>"

definition SoundManager_add ::
  "env \<Rightarrow> string \<Rightarrow> real option \<Rightarrow> bool option \<Rightarrow> manager \<Rightarrow> manager \<times> sound" where
  "SoundManager_add e k vol lp m =
     (let s = (new_Sound (sm_usingWebAudio m) (sm_usingAudioTag m)
                 (getSound e k \<noteq> None \<and> isSoundReady e k)
                 (if data_duration e k \<noteq> 0 then Some (data_duration e k) else None)
                 k vol lp)\<lparr>in_manager := True\<rparr>
      in (m\<lparr>priv_sounds := priv_sounds m @ [s]\<rparr>, s))"

text \<open>
  \<^verbatim>\<open>removeByKey\<close> walks \<^verbatim>\<open>_sounds\<close> from the last index down. The loop state is the
  array, the Sounds \<^verbatim>\<open>destroy(false)\<close> was called on (as it left them) and the counter.
\<close>

fun removeByKey_loop ::
  "string \<Rightarrow> nat \<Rightarrow> sound list \<times> sound list \<times> nat \<Rightarrow> sound list \<times> sound list \<times> nat" where
  "removeByKey_loop k 0 st = st"
| "removeByKey_loop k (Suc i) (ss, destroyed, removed) =
     (if key (ss ! i) = k
      then removeByKey_loop k i
             (take i ss @ drop (Suc i) ss,
              (destroy_keep (ss ! i))\<lparr>in_manager := False\<rparr> # destroyed,
              removed + 1)
      else removeByKey_loop k i (ss, destroyed, removed))"

definition removeByKey :: "string \<Rightarrow> manager \<Rightarrow> manager \<times> sound list \<times> nat" where
  "removeByKey k m =
     (case removeByKey_loop k (length (priv_sounds m)) (priv_sounds m, [], 0) of
        (ss, destroyed, removed) \<Rightarrow> (m\<lparr>priv_sounds := ss\<rparr>, destroyed, removed))"

subsection \<open>SoundManager: decode watch\<close>

text \<open>
  Modelled from the spec: the watch list (Phaser.ArraySet is not among the sources). The
  spec describes it as a set of pending asset keys: \<^verbatim>\<open>reset\<close> empties it, \<^verbatim>\<open>add\<close> inserts a
  key that is not yet in it, \<^verbatim>\<open>remove\<close> deletes a key, \<^verbatim>\<open>total\<close> is its size and
  \<^verbatim>\<open>first\<close>/\<^verbatim>\<open>next\<close> enumerate the keys in it.
\<close>

definition ArraySet_add :: "string \<Rightarrow> string list \<Rightarrow> string list" where
  "ArraySet_add k l = (if k \<in> set l then l else l @ [k])"

datatype sound_file = Key string | SoundObject sound

fun file_key :: "sound_file \<Rightarrow> string" where
  "file_key (Key k) = k"
| "file_key (SoundObject s) = key s"

fun watch_collect :: "env \<Rightarrow> sound_file list \<Rightarrow> string list \<Rightarrow> string list" where
  "watch_collect e [] l = l"
| "watch_collect e (f # fs) l =
     watch_collect e fs (if \<not> isSoundDecoded e (file_key f) then ArraySet_add (file_key f) l else l)"

definition setDecodedCallback :: "env \<Rightarrow> sound_file list \<Rightarrow> nat \<Rightarrow> manager \<Rightarrow> manager" where
  "setDecodedCallback e files callback m =
     (let m1 = m\<lparr>priv_watchList := watch_collect e files []\<rparr> in
      if length (priv_watchList m1) = 0
      then m1\<lparr>priv_watching := False, calls := calls m1 @ [callback]\<rparr>
      else m1\<lparr>priv_watching := True, priv_watchCallback := Some callback\<rparr>)"

text \<open>
  The \<^verbatim>\<open>while (key)\<close> loop of \<^verbatim>\<open>update\<close>: it removes the keys that report decoded and ends
  at the end of the list or at a key that is falsy, the empty string.
\<close>

fun watch_sweep :: "env \<Rightarrow> string list \<Rightarrow> string list" where
  "watch_sweep e [] = []"
| "watch_sweep e (k # ks) =
     (if k = [] then k # ks
      else if isSoundDecoded e k then watch_sweep e ks
      else k # watch_sweep e ks)"

definition update_watch :: "env \<Rightarrow> manager \<Rightarrow> manager outcome" where
  "update_watch e m =
     (if priv_watching m then
        (let m1 = m\<lparr>priv_watchList := watch_sweep e (priv_watchList m)\<rparr> in
         if length (priv_watchList m1) = 0 then
           (case priv_watchCallback m1 of
              None \<Rightarrow> Threw (m1\<lparr>priv_watching := False\<rparr>)
            | Some cb \<Rightarrow> Returned (m1\<lparr>priv_watching := False, calls := calls m1 @ [cb]\<rparr>))
         else Returned m1)
      else Returned m)"

text \<open>
  The \<^verbatim>\<open>for\<close> loop of \<^verbatim>\<open>update\<close> over \<^verbatim>\<open>_sounds\<close>. A Sound that destroyed itself has been
  spliced out of the array by \<^verbatim>\<open>remove\<close>, and the index still advances. A Sound whose
  \<^verbatim>\<open>update\<close> has left the model has thrown nothing, and the loop goes on.
\<close>

definition settle :: "nat \<Rightarrow> sound \<Rightarrow> sound list \<Rightarrow> sound list" where
  "settle i s ss = (if in_manager s then ss[i := s] else take i ss @ drop (Suc i) ss)"

function update_sounds :: "env \<Rightarrow> nat \<Rightarrow> sound list \<Rightarrow> sound list outcome" where
  "update_sounds e i ss =
     (if i < length ss then
        (case update e (ss ! i) of
           Threw s \<Rightarrow> Threw (settle i s ss)
         | Returned s \<Rightarrow> update_sounds e (Suc i) (settle i s ss)
         | Undefined s \<Rightarrow> update_sounds e (Suc i) (settle i s ss))
      else Returned ss)"
  by pat_completeness auto
termination
  by (relation "measure (\<lambda>(e, i, ss). length ss - i)") (auto simp: settle_def)

definition SoundManager_update :: "env \<Rightarrow> manager \<Rightarrow> manager outcome" where
  "SoundManager_update e m =
     (if noAudio m then Returned m
      else
        (case update_sounds e 0 (priv_sounds m) of
           Threw ss \<Rightarrow> Threw (m\<lparr>priv_sounds := ss\<rparr>)
         | Returned ss \<Rightarrow> update_watch e (m\<lparr>priv_sounds := ss\<rparr>)
         | Undefined ss \<Rightarrow> Undefined (m\<lparr>priv_sounds := ss\<rparr>)))"

definition ticks :: "env list \<Rightarrow> manager \<Rightarrow> manager" where
  "ticks es m = fold (\<lambda>e m'. state_of (SoundManager_update e m')) es m"

text \<open>Every tick of the list runs to its end: no Sound's \<^verbatim>\<open>update\<close> throws.\<close>

fun all_return :: "env list \<Rightarrow> manager \<Rightarrow> bool" where
  "all_return [] m = True"
| "all_return (e # es) m =
     (case SoundManager_update e m of
        Returned m' \<Rightarrow> all_return es m'
      | Threw m' \<Rightarrow> False
      | Undefined m' \<Rightarrow> False)"

text \<open>The fields of the manager that belong to the decode watch.\<close>

definition watch_of :: "manager \<Rightarrow> string list \<times> bool \<times> nat option \<times> nat list" where
  "watch_of m = (priv_watchList m, priv_watching m, priv_watchCallback m, calls m)"

subsection \<open>Histories of one Sound\<close>

text \<open>
  What can happen to a Sound after its construction: a call of one of its methods or an
  assignment to one of its properties by the game, a call by the manager, a callback from
  the cache, the backend or the tween. A call that throws leaves the state it had reached.
  The histories of the model are those in which no call leaves the model, that is, no
  \<^verbatim>\<open>play\<close> names a property inherited from \<^verbatim>\<open>Object.prototype\<close>.
\<close>

datatype call =
    Play env "string option" "real option" "real option" "bool option" "bool option" "bool option"
  | Restart env "string option" "real option" "real option" "bool option"
  | LoopFull env "real option"
  | Pause env
  | Resume env
  | Stop
  | Update env
  | Destroy "bool option"
  | ManagerRemove
  | AddMarker string real "real option" "real option" "bool option"
  | RemoveMarker string
  | SetVolume real
  | SetMute bool
  | SetLoop bool
  | SetOverride bool
  | SetAllowMultiple bool
  | SetPlayOnce bool
  | FadeTo "real option" "real option"
  | FadeOut "real option"
  | FadeIn env "real option" "bool option" "string option"
  | FadeTweenComplete
  | ReplacedTweenComplete nat
  | SoundHasUnlocked string real
  | OnEnded

fun step :: "call \<Rightarrow> sound \<Rightarrow> sound" where
  "step (Play e marker pos vol lp fr op) s = state_of (play e marker pos vol lp fr op s)"
| "step (Restart e marker pos vol lp) s = state_of (restart e marker pos vol lp s)"
| "step (LoopFull e vol) s = state_of (loopFull e vol s)"
| "step (Pause e) s = state_of (pause e s)"
| "step (Resume e) s = state_of (resume e s)"
| "step Stop s = stop s"
| "step (Update e) s = state_of (update e s)"
| "step (Destroy remove) s = destroy remove s"
| "step ManagerRemove s = manager_remove s"
| "step (AddMarker name start dur vol lp) s = addMarker name start dur vol lp s"
| "step (RemoveMarker name) s = removeMarker name s"
| "step (SetVolume v) s = set_volume v s"
| "step (SetMute b) s = set_mute b s"
| "step (SetLoop b) s = s\<lparr>loop := b\<rparr>"
| "step (SetOverride b) s = s\<lparr>override := b\<rparr>"
| "step (SetAllowMultiple b) s = s\<lparr>allowMultiple := b\<rparr>"
| "step (SetPlayOnce b) s = s\<lparr>playOnce := b\<rparr>"
| "step (FadeTo dur vol) s = fadeTo dur vol s"
| "step (FadeOut dur) s = fadeOut dur s"
| "step (FadeIn e dur lp marker) s = state_of (fadeIn e dur lp marker s)"
| "step FadeTweenComplete s = fadeTween_complete s"
| "step (ReplacedTweenComplete i) s = replaced_tween_complete i s"
| "step (SoundHasUnlocked k d) s = soundHasUnlocked k d s"
| "step OnEnded s = state_of (onEndedHandler s)"

definition run :: "call list \<Rightarrow> sound \<Rightarrow> sound" where
  "run cs s = fold step cs s"

text \<open>
  A Sound as the game first holds it: built by the constructor, registered or not with the
  manager (\<^verbatim>\<open>SoundManager.add\<close> registers it).
\<close>

definition initial ::
  "bool \<Rightarrow> bool \<Rightarrow> bool \<Rightarrow> real option \<Rightarrow> string \<Rightarrow> real option \<Rightarrow> bool option \<Rightarrow> bool \<Rightarrow> sound" where
  "initial web tag cached d k vol lp registered =
     (new_Sound web tag cached d k vol lp)\<lparr>in_manager := registered\<rparr>"

text \<open>
  The shape of the voice fields that every history keeps: a playing Sound is not paused
  and holds a voice, with a context if it plays through Web Audio; and only a Web Audio
  Sound ever holds a buffer source.
\<close>

definition wf :: "sound \<Rightarrow> bool" where
  "wf s =
     (\<not> (isPlaying s \<and> paused s)
      \<and> (isPlaying s \<longrightarrow> priv_sound s \<noteq> None \<and> (usingWebAudio s \<longrightarrow> audio_context s))
      \<and> (\<not> usingWebAudio s \<longrightarrow> priv_sound s \<noteq> Some BufferSource))"


text \<open>\<^verbatim>\<open>forceRestart\<close> with its default.\<close>

definition force :: "bool option \<Rightarrow> bool" where
  "force forceRestart = (case forceRestart of None \<Rightarrow> True | Some b \<Rightarrow> b)"

subsection \<open>Concrete inputs\<close>

text \<open>The property names a plain object inherits from \<^verbatim>\<open>Object.prototype\<close>.\<close>

definition Object_prototype_names :: "string list" where
  "Object_prototype_names =
     [''constructor'', ''hasOwnProperty'', ''isPrototypeOf'', ''propertyIsEnumerable'',
      ''toLocaleString'', ''toString'', ''valueOf'', ''__proto__'', ''__defineGetter__'',
      ''__defineSetter__'', ''__lookupGetter__'', ''__lookupSetter__'']"

text \<open>A cache in which every asset is decoded and ready, and one in which none is.\<close>

definition env_ready :: "real \<Rightarrow> env" where
  "env_ready now =
     \<lparr> time = now, checkSoundKey = (\<lambda>k. True), isSoundDecoded = (\<lambda>k. True),
       isSoundReady = (\<lambda>k. True),
       getSound = (\<lambda>k. Some \<lparr> isDecoding = False, locked = False \<rparr>),
       cocoonJS = False, readyState = (\<lambda>k. 4), element_currentTime = (\<lambda>k. 0),
       data_duration = (\<lambda>k. 3), sound_volume = 1, sound_mute = False,
       object_prototype = (\<lambda>k. k \<in> set Object_prototype_names) \<rparr>"

definition env_undecoded :: "real \<Rightarrow> env" where
  "env_undecoded now =
     \<lparr> time = now, checkSoundKey = (\<lambda>k. True), isSoundDecoded = (\<lambda>k. False),
       isSoundReady = (\<lambda>k. False),
       getSound = (\<lambda>k. Some \<lparr> isDecoding = False, locked = False \<rparr>),
       cocoonJS = False, readyState = (\<lambda>k. 0), element_currentTime = (\<lambda>k. 0),
       data_duration = (\<lambda>k. 3), sound_volume = 1, sound_mute = False,
       object_prototype = (\<lambda>k. k \<in> set Object_prototype_names) \<rparr>"

text \<open>A Web Audio Sound as its constructor leaves it, and one with a marker.\<close>

definition blip :: sound where
  "blip = new_Sound True False False None ''blip'' None None"

definition sprite :: sound where
  "sprite = addMarker ''explosion'' 2 (Some (1/2)) None None blip"

text \<open>The same two after a first \<^verbatim>\<open>play\<close> that started at once.\<close>

definition blip_playing :: sound where
  "blip_playing = state_of (play (env_ready 0) None None None None None None blip)"

definition sprite_playing :: sound where
  "sprite_playing =
     state_of (play (env_ready 0) (Some ''explosion'') None None None None None sprite)"

text \<open>A manager holding three Sounds keyed "blip", "blip" and "boom".\<close>

definition registry :: manager where
  "registry =
     fst (SoundManager_add (env_ready 0) ''boom'' None None
       (fst (SoundManager_add (env_ready 0) ''blip'' None None
         (fst (SoundManager_add (env_ready 0) ''blip'' None None
           (new_SoundManager False True False))))))"

section \<open>Properties\<close>

named_theorems method_defs \<open>the definitions of the methods, to evaluate a concrete call\<close>

declare new_Sound_def [method_defs] addMarker_def [method_defs] removeMarker_def [method_defs]
  clamp_def [method_defs] volume_def [method_defs] set_volume_def [method_defs]
  set_mute_def [method_defs] createSourceAndConnect_def [method_defs]
  stopSourceAndDisconnect_def [method_defs] release_voice_def [method_defs]
  tween_stop_def [method_defs] stop_def [method_defs] play_marker_def [method_defs]
  play_whole_def [method_defs] play_source_def [method_defs] play_element_def [method_defs]
  play_backend_def [method_defs] play_once_def [method_defs] play_release_def [method_defs]
  play_def [method_defs] pause_def [method_defs] resume_source_def [method_defs]
  resume_element_def [method_defs] resume_def [method_defs] destroy_clear_def [method_defs]
  destroy_keep_def [method_defs] manager_remove_def [method_defs] destroy_def [method_defs]
  fadeTo_def [method_defs] fadeComplete_def [method_defs] fadeTween_complete_def [method_defs]
  emit_def [method_defs] dispatch_def [method_defs] force_def [method_defs]
  markers_get_def [method_defs] replaced_tween_complete_def [method_defs]
  fade_in_flight_def [method_defs] Object_prototype_names_def [method_defs]
  env_ready_def [method_defs] env_undecoded_def [method_defs] blip_def [method_defs]
  sprite_def [method_defs] blip_playing_def [method_defs] sprite_playing_def [method_defs]
  Let_def [method_defs]

subsection \<open>What the helpers leave alone\<close>

lemma emit_fields [simp]:
  "sound_name (emit c s) = sound_name s" "key (emit c s) = key s" "loop (emit c s) = loop s"
  "markers (emit c s) = markers s" "audio_context (emit c s) = audio_context s"
  "totalDuration (emit c s) = totalDuration s" "startTime (emit c s) = startTime s"
  "currentTime (emit c s) = currentTime s" "duration (emit c s) = duration s"
  "durationMS (emit c s) = durationMS s" "position (emit c s) = position s"
  "stopTime (emit c s) = stopTime s" "paused (emit c s) = paused s"
  "pausedPosition (emit c s) = pausedPosition s" "pausedTime (emit c s) = pausedTime s"
  "isPlaying (emit c s) = isPlaying s" "currentMarker (emit c s) = currentMarker s"
  "fadeTween (emit c s) = fadeTween s" "replaced_tweens (emit c s) = replaced_tweens s"
  "pendingPlayback (emit c s) = pendingPlayback s" "override (emit c s) = override s"
  "allowMultiple (emit c s) = allowMultiple s" "playOnce (emit c s) = playOnce s"
  "usingWebAudio (emit c s) = usingWebAudio s" "usingAudioTag (emit c s) = usingAudioTag s"
  "gain (emit c s) = gain s" "priv_sound (emit c s) = priv_sound s"
  "priv_globalVolume (emit c s) = priv_globalVolume s"
  "priv_markedToDelete (emit c s) = priv_markedToDelete s"
  "priv_pendingStart (emit c s) = priv_pendingStart s"
  "priv_removeFromSoundManager (emit c s) = priv_removeFromSoundManager s"
  "priv_sourceId (emit c s) = priv_sourceId s" "priv_volume (emit c s) = priv_volume s"
  "priv_buffer (emit c s) = priv_buffer s" "priv_muted (emit c s) = priv_muted s"
  "priv_tempMarker (emit c s) = priv_tempMarker s"
  "priv_tempPosition (emit c s) = priv_tempPosition s"
  "priv_tempVolume (emit c s) = priv_tempVolume s"
  "priv_tempPause (emit c s) = priv_tempPause s"
  "priv_muteVolume (emit c s) = priv_muteVolume s"
  "priv_tempLoop (emit c s) = priv_tempLoop s"
  "priv_onDecodedEventDispatched (emit c s) = priv_onDecodedEventDispatched s"
  "in_manager (emit c s) = in_manager s" "events (emit c s) = events s"
  by (simp_all add: emit_def)

lemma commands_emit [simp]: "commands (emit c s) = commands s @ [c]"
  by (simp add: emit_def)

lemma dispatch_fields [simp]:
  "sound_name (dispatch ev s) = sound_name s" "key (dispatch ev s) = key s"
  "loop (dispatch ev s) = loop s" "markers (dispatch ev s) = markers s"
  "audio_context (dispatch ev s) = audio_context s"
  "totalDuration (dispatch ev s) = totalDuration s" "startTime (dispatch ev s) = startTime s"
  "currentTime (dispatch ev s) = currentTime s" "duration (dispatch ev s) = duration s"
  "durationMS (dispatch ev s) = durationMS s" "position (dispatch ev s) = position s"
  "stopTime (dispatch ev s) = stopTime s" "paused (dispatch ev s) = paused s"
  "pausedPosition (dispatch ev s) = pausedPosition s"
  "pausedTime (dispatch ev s) = pausedTime s" "isPlaying (dispatch ev s) = isPlaying s"
  "currentMarker (dispatch ev s) = currentMarker s" "fadeTween (dispatch ev s) = fadeTween s"
  "replaced_tweens (dispatch ev s) = replaced_tweens s"
  "pendingPlayback (dispatch ev s) = pendingPlayback s"
  "override (dispatch ev s) = override s" "allowMultiple (dispatch ev s) = allowMultiple s"
  "playOnce (dispatch ev s) = playOnce s" "usingWebAudio (dispatch ev s) = usingWebAudio s"
  "usingAudioTag (dispatch ev s) = usingAudioTag s" "gain (dispatch ev s) = gain s"
  "priv_sound (dispatch ev s) = priv_sound s"
  "priv_globalVolume (dispatch ev s) = priv_globalVolume s"
  "priv_markedToDelete (dispatch ev s) = priv_markedToDelete s"
  "priv_pendingStart (dispatch ev s) = priv_pendingStart s"
  "priv_removeFromSoundManager (dispatch ev s) = priv_removeFromSoundManager s"
  "priv_sourceId (dispatch ev s) = priv_sourceId s"
  "priv_volume (dispatch ev s) = priv_volume s" "priv_buffer (dispatch ev s) = priv_buffer s"
  "priv_muted (dispatch ev s) = priv_muted s"
  "priv_tempMarker (dispatch ev s) = priv_tempMarker s"
  "priv_tempPosition (dispatch ev s) = priv_tempPosition s"
  "priv_tempVolume (dispatch ev s) = priv_tempVolume s"
  "priv_tempPause (dispatch ev s) = priv_tempPause s"
  "priv_muteVolume (dispatch ev s) = priv_muteVolume s"
  "priv_tempLoop (dispatch ev s) = priv_tempLoop s"
  "priv_onDecodedEventDispatched (dispatch ev s) = priv_onDecodedEventDispatched s"
  "in_manager (dispatch ev s) = in_manager s" "commands (dispatch ev s) = commands s"
  by (simp_all add: dispatch_def)

lemma events_dispatch [simp]: "events (dispatch ev s) = events s @ [ev]"
  by (simp add: dispatch_def)

lemma release_voice_fields [simp]:
  "sound_name (release_voice s) = sound_name s" "key (release_voice s) = key s"
  "loop (release_voice s) = loop s" "markers (release_voice s) = markers s"
  "audio_context (release_voice s) = audio_context s"
  "totalDuration (release_voice s) = totalDuration s"
  "startTime (release_voice s) = startTime s" "currentTime (release_voice s) = currentTime s"
  "duration (release_voice s) = duration s" "durationMS (release_voice s) = durationMS s"
  "position (release_voice s) = position s" "stopTime (release_voice s) = stopTime s"
  "paused (release_voice s) = paused s" "pausedPosition (release_voice s) = pausedPosition s"
  "pausedTime (release_voice s) = pausedTime s" "isPlaying (release_voice s) = isPlaying s"
  "currentMarker (release_voice s) = currentMarker s"
  "fadeTween (release_voice s) = fadeTween s"
  "replaced_tweens (release_voice s) = replaced_tweens s"
  "pendingPlayback (release_voice s) = pendingPlayback s"
  "override (release_voice s) = override s"
  "allowMultiple (release_voice s) = allowMultiple s"
  "playOnce (release_voice s) = playOnce s"
  "usingWebAudio (release_voice s) = usingWebAudio s"
  "usingAudioTag (release_voice s) = usingAudioTag s" "gain (release_voice s) = gain s"
  "priv_globalVolume (release_voice s) = priv_globalVolume s"
  "priv_markedToDelete (release_voice s) = priv_markedToDelete s"
  "priv_pendingStart (release_voice s) = priv_pendingStart s"
  "priv_removeFromSoundManager (release_voice s) = priv_removeFromSoundManager s"
  "priv_sourceId (release_voice s) = priv_sourceId s"
  "priv_volume (release_voice s) = priv_volume s"
  "priv_buffer (release_voice s) = priv_buffer s"
  "priv_muted (release_voice s) = priv_muted s"
  "priv_tempMarker (release_voice s) = priv_tempMarker s"
  "priv_tempPosition (release_voice s) = priv_tempPosition s"
  "priv_tempVolume (release_voice s) = priv_tempVolume s"
  "priv_tempPause (release_voice s) = priv_tempPause s"
  "priv_muteVolume (release_voice s) = priv_muteVolume s"
  "priv_tempLoop (release_voice s) = priv_tempLoop s"
  "priv_onDecodedEventDispatched (release_voice s) = priv_onDecodedEventDispatched s"
  "in_manager (release_voice s) = in_manager s" "events (release_voice s) = events s"
  by (simp_all add: release_voice_def stopSourceAndDisconnect_def)

lemma set_volume_fields [simp]:
  "sound_name (set_volume v s) = sound_name s" "key (set_volume v s) = key s"
  "loop (set_volume v s) = loop s" "markers (set_volume v s) = markers s"
  "audio_context (set_volume v s) = audio_context s"
  "totalDuration (set_volume v s) = totalDuration s"
  "startTime (set_volume v s) = startTime s" "currentTime (set_volume v s) = currentTime s"
  "duration (set_volume v s) = duration s" "durationMS (set_volume v s) = durationMS s"
  "position (set_volume v s) = position s" "stopTime (set_volume v s) = stopTime s"
  "paused (set_volume v s) = paused s" "pausedPosition (set_volume v s) = pausedPosition s"
  "pausedTime (set_volume v s) = pausedTime s" "isPlaying (set_volume v s) = isPlaying s"
  "currentMarker (set_volume v s) = currentMarker s"
  "fadeTween (set_volume v s) = fadeTween s"
  "replaced_tweens (set_volume v s) = replaced_tweens s"
  "pendingPlayback (set_volume v s) = pendingPlayback s"
  "override (set_volume v s) = override s" "allowMultiple (set_volume v s) = allowMultiple s"
  "playOnce (set_volume v s) = playOnce s" "usingWebAudio (set_volume v s) = usingWebAudio s"
  "usingAudioTag (set_volume v s) = usingAudioTag s"
  "priv_sound (set_volume v s) = priv_sound s"
  "priv_globalVolume (set_volume v s) = priv_globalVolume s"
  "priv_markedToDelete (set_volume v s) = priv_markedToDelete s"
  "priv_pendingStart (set_volume v s) = priv_pendingStart s"
  "priv_removeFromSoundManager (set_volume v s) = priv_removeFromSoundManager s"
  "priv_sourceId (set_volume v s) = priv_sourceId s"
  "priv_buffer (set_volume v s) = priv_buffer s" "priv_muted (set_volume v s) = priv_muted s"
  "priv_tempMarker (set_volume v s) = priv_tempMarker s"
  "priv_tempPosition (set_volume v s) = priv_tempPosition s"
  "priv_tempPause (set_volume v s) = priv_tempPause s"
  "priv_tempLoop (set_volume v s) = priv_tempLoop s"
  "priv_onDecodedEventDispatched (set_volume v s) = priv_onDecodedEventDispatched s"
  "in_manager (set_volume v s) = in_manager s" "events (set_volume v s) = events s"
  by (simp_all add: set_volume_def Let_def)

subsection \<open>stop on a Sound that is not playing\<close>

text \<open>
  C1, as the spec states it, fails: \<^verbatim>\<open>stop\<close> on a Sound that was never played dispatches
  \<^verbatim>\<open>onStop\<close>. The guard \<^verbatim>\<open>isPlaying\<close> only covers the release of the voice.
\<close>

theorem stop_not_playing_counterexample:
  "\<not> isPlaying blip \<and> events blip = [] \<and> events (stop blip) = [OnStop []]"
  by (simp add: method_defs)

text \<open>
  C1, amended: on a Sound that is not playing, \<^verbatim>\<open>stop\<close> dispatches nothing when the Sound is
  paused, and then changes no field but \<^verbatim>\<open>pendingPlayback\<close>, which it clears. When the Sound
  is not paused it dispatches \<^verbatim>\<open>onMarkerComplete\<close> if a marker is current and then
  \<^verbatim>\<open>onStop\<close>, clears \<^verbatim>\<open>currentMarker\<close> and \<^verbatim>\<open>pendingPlayback\<close> and stops the fade tween; it
  never touches the backend voice.
\<close>

theorem stop_not_playing:
  assumes "\<not> isPlaying s"
  shows "stop s =
           (if paused s then s\<lparr>pendingPlayback := False\<rparr>
            else s\<lparr>pendingPlayback := False, currentMarker := [],
                   fadeTween := tween_stop (fadeTween s),
                   events := events s
                     @ (if currentMarker s = [] then [] else [OnMarkerComplete (currentMarker s)])
                     @ [OnStop (currentMarker s)]\<rparr>)"
  using assms by (cases s) (simp add: stop_def dispatch_def Let_def)

theorem stop_not_playing_witness:
  "\<not> isPlaying (blip\<lparr>paused := True, pendingPlayback := True\<rparr>)
   \<and> stop (blip\<lparr>paused := True, pendingPlayback := True\<rparr>) = blip\<lparr>paused := True\<rparr>"
  using stop_not_playing [of "blip\<lparr>paused := True, pendingPlayback := True\<rparr>"]
  by (simp add: blip_def new_Sound_def)

subsection \<open>The volume of a muted Sound\<close>

text \<open>
  C10: while \<^verbatim>\<open>_muted\<close> is set, assigning to \<^verbatim>\<open>volume\<close> leaves the value the getter returns
  as it was. The assignment stores the value (clamped under the audio tag) in
  \<^verbatim>\<open>_muteVolume\<close> and changes nothing else: not \<^verbatim>\<open>_volume\<close>, not the gain, and no command
  reaches the audio element.
\<close>

theorem volume_while_muted:
  assumes "priv_muted s"
  shows "volume (set_volume v s) = volume s
         \<and> set_volume v s = s\<lparr>priv_muteVolume := (if usingAudioTag s then clamp v 0 1 else v)\<rparr>"
  using assms by (simp add: set_volume_def volume_def Let_def)

theorem volume_while_muted_witness:
  "priv_muted (set_mute True blip) \<and> volume (set_volume (1/4) (set_mute True blip)) = 1
   \<and> gain (set_volume (1/4) (set_mute True blip)) = 0"
  using volume_while_muted [of "set_mute True blip" "1/4"]
  by (simp add: method_defs)

subsection \<open>play without a marker on a Sound that has markers\<close>

lemma markers_play_release: "markers (play_release fr s) = markers s"
  by (simp add: play_release_def)

lemma play_release_rejected:
  "isPlaying s \<and> \<not> allowMultiple s \<and> \<not> fr \<and> \<not> override s \<Longrightarrow> play_release fr s = s"
  by (simp add: play_release_def)

text \<open>
  C2, as the spec states it, fails: the restart block of \<^verbatim>\<open>play\<close> runs before the marker
  check, so on a Sound that is playing (default \<^verbatim>\<open>forceRestart\<close>) the voice is released and
  \<^verbatim>\<open>isPlaying\<close> cleared before the call returns.
\<close>

theorem play_no_marker_counterexample:
  "markers sprite_playing \<noteq> [] \<and> isPlaying sprite_playing
   \<and> \<not> isPlaying (state_of (play (env_ready 5) None None None None None None sprite_playing))"
  by (simp add: method_defs)

text \<open>
  C2, amended: on a Sound with at least one marker, \<^verbatim>\<open>play\<close> with no marker name starts
  nothing and dispatches no signal, and it changes no field unless the Sound is playing a
  single attached voice and \<^verbatim>\<open>forceRestart\<close> or \<^verbatim>\<open>override\<close> is set; then it releases that
  voice and clears \<^verbatim>\<open>isPlaying\<close>, and no more.
\<close>

theorem play_no_marker:
  assumes "markers s \<noteq> []" and "marker = None \<or> marker = Some []"
  shows "play e marker pos vol lp fr op s =
           Returned (if priv_sound s \<noteq> None \<and> isPlaying s \<and> \<not> allowMultiple s
                        \<and> (override s \<or> force fr)
                     then (release_voice s)\<lparr>isPlaying := False\<rparr> else s)
         \<and> events (release_voice s) = events s"
proof -
  have "play e marker pos vol lp fr op s = Returned (play_release (force fr) s)"
    using assms
    by (auto simp: play_def force_def Let_def markers_play_release play_release_rejected)
  then show ?thesis
    by (simp add: play_release_def)
qed

theorem play_no_marker_witness:
  "play (env_ready 5) None None None None (Some False) None sprite_playing = Returned sprite_playing
   \<and> play (env_ready 5) None None None None None None sprite = Returned sprite"
  using play_no_marker [of sprite_playing None "env_ready 5" None None None "Some False" None]
    play_no_marker [of sprite None "env_ready 5" None None None None None]
  by (simp add: method_defs)

subsection \<open>play with a marker name that does not exist\<close>

lemma markers_get_missing:
  "map_of ms mk = None \<Longrightarrow> \<not> object_prototype e mk \<Longrightarrow> markers_get e ms mk = Missing"
  by (simp add: markers_get_def)

text \<open>
  A name that \<^verbatim>\<open>Object.prototype\<close> defines is not a missing marker: \<^verbatim>\<open>play\<close> makes it the
  current marker and goes on, without a warning.
\<close>

lemma play_inherited_name:
  "play (env_ready 0) (Some ''toString'') None None None None None blip
     = Undefined (blip\<lparr>currentMarker := ''toString''\<rparr>)"
  by (simp add: method_defs)

text \<open>
  C6, as the spec states it, fails for the same reason as C2: the voice of a playing Sound
  is released before the marker is looked up.
\<close>

theorem play_missing_marker_counterexample:
  "map_of (markers sprite_playing) ''laser'' = None \<and> isPlaying sprite_playing
   \<and> \<not> isPlaying (state_of (play (env_ready 5) (Some ''laser'') None None None None None sprite_playing))
   \<and> priv_sound sprite_playing = Some BufferSource
   \<and> priv_sound (state_of (play (env_ready 5) (Some ''laser'') None None None None None sprite_playing)) = None"
  by (simp add: method_defs)

text \<open>
  C6, amended: \<^verbatim>\<open>play\<close> with a non-empty marker name that \<^verbatim>\<open>this.markers[name]\<close> does not
  find, a name that is neither a key of \<^verbatim>\<open>markers\<close> nor a property inherited from
  \<^verbatim>\<open>Object.prototype\<close>, returns the Sound, starts no voice and dispatches no signal. If the
  already-playing guard turns the call away it changes nothing at all (and logs nothing);
  otherwise it logs the warning, after having released the voice and cleared \<^verbatim>\<open>isPlaying\<close>
  when the Sound was playing a single attached voice, and it changes nothing else.
\<close>

theorem play_missing_marker:
  assumes "mk \<noteq> []" and "map_of (markers s) mk = None" and "\<not> object_prototype e mk"
  shows "play e (Some mk) pos vol lp fr op s =
           Returned
             (if isPlaying s \<and> \<not> allowMultiple s \<and> \<not> force fr \<and> \<not> override s then s
              else emit (Warn (''Phaser.Sound.play: audio marker '' @ mk @ '' doesn't exist''))
                     (if priv_sound s \<noteq> None \<and> isPlaying s \<and> \<not> allowMultiple s
                      then (release_voice s)\<lparr>isPlaying := False\<rparr> else s))
         \<and> events (release_voice s) = events s"
proof -
  let ?guard = "isPlaying s \<and> \<not> allowMultiple s \<and> \<not> force fr \<and> \<not> override s"
  have g: "markers_get e (markers (play_release (force fr) s)) mk = Missing"
    using assms(2,3) by (simp add: markers_get_missing markers_play_release)
  have p: "play e (Some mk) pos vol lp fr op s =
          (if ?guard then Returned s
           else Returned (emit (Warn (''Phaser.Sound.play: audio marker '' @ mk @ '' doesn't exist''))
                  (play_release (force fr) s)))"
    using assms(1) g by (simp add: play_def force_def Let_def)
  have r: "\<not> ?guard \<Longrightarrow>
        play_release (force fr) s =
          (if priv_sound s \<noteq> None \<and> isPlaying s \<and> \<not> allowMultiple s
           then (release_voice s)\<lparr>isPlaying := False\<rparr> else s)"
    unfolding play_release_def
    by (cases "override s"; cases "force fr"; cases "isPlaying s"; cases "allowMultiple s"; simp)
  show ?thesis
  proof (cases ?guard)
    case True
    with p show ?thesis by simp
  next
    case False
    from r [OF False] p show ?thesis
      unfolding if_not_P [OF False] by simp
  qed
qed

theorem play_missing_marker_witness:
  "\<not> object_prototype (env_ready 5) ''laser''
   \<and> play (env_ready 5) (Some ''laser'') None None None None None sprite =
       Returned (emit (Warn ''Phaser.Sound.play: audio marker laser doesn't exist'') sprite)"
  using play_missing_marker [of "''laser''" sprite "env_ready 5" None None None None None]
  by (simp add: method_defs)

subsection \<open>Markers and the duration of a played marker\<close>

lemma duration_set_volume: "duration (set_volume v s) = duration s" "durationMS (set_volume v s) = durationMS s"
  "currentMarker (set_volume v s) = currentMarker s"
  by (simp_all add: set_volume_def emit_def Let_def)

lemma play_marker_duration:
  "duration (play_marker mk m vol lp s) = m_duration m"
  "durationMS (play_marker mk m vol lp s) = m_durationMS m"
  "currentMarker (play_marker mk m vol lp s) = mk"
  by (simp_all add: play_marker_def Let_def duration_set_volume split: option.splits)

lemma play_source_duration:
  assumes "duration s \<noteq> 0"
  shows "duration (play_source e mk op s) = duration s"
    and "durationMS (play_source e mk op s) = durationMS s"
    and "currentMarker (play_source e mk op s) = currentMarker s"
  using assms by (simp_all add: play_source_def Let_def)

lemma play_element_duration:
  assumes "duration s \<noteq> 0"
  shows "duration (play_element e op s) = duration s"
    and "durationMS (play_element e op s) = durationMS s"
    and "currentMarker (play_element e op s) = currentMarker s"
  using assms by (simp_all add: play_element_def Let_def)

lemma play_backend_duration:
  assumes "duration s \<noteq> 0"
  shows "duration (state_of (play_backend e mk op s)) = duration s"
    and "durationMS (state_of (play_backend e mk op s)) = durationMS s"
    and "currentMarker (state_of (play_backend e mk op s)) = currentMarker s"
  using assms
  by (simp_all add: play_backend_def play_source_duration play_element_duration
      createSourceAndConnect_def Let_def split: option.splits)

lemma state_of_and_then_play_once:
  "duration (state_of (and_then r (\<lambda>s'. Returned (play_once s')))) = duration (state_of r)"
  "durationMS (state_of (and_then r (\<lambda>s'. Returned (play_once s')))) = durationMS (state_of r)"
  "currentMarker (state_of (and_then r (\<lambda>s'. Returned (play_once s')))) = currentMarker (state_of r)"
  by (cases r; simp add: play_once_def emit_def)+

text \<open>
  C8: the marker stored by \<^verbatim>\<open>addMarker\<close> (of positive duration \<open>d\<close>, under a non-empty name)
  has \<^verbatim>\<open>stop = start + duration\<close>. A \<^verbatim>\<open>play\<close> of that name either is turned away by the
  already-playing guard, and then returns the Sound as it was, or leaves the Sound with
  \<^verbatim>\<open>duration = d\<close>, \<^verbatim>\<open>durationMS = d * 1000\<close> and the marker current: so does every play
  that starts a voice, and also one that is deferred.
\<close>

theorem addMarker_play:
  assumes "name \<noteq> []" and "0 < d" and "d = (case dur of None \<Rightarrow> 1 | Some x \<Rightarrow> x)"
  shows "map_of (markers (addMarker name start dur vol lp s)) name =
           Some \<lparr> m_name = name, m_start = start, m_stop = start + d,
                  m_volume = (case vol of None \<Rightarrow> 1 | Some x \<Rightarrow> x), m_duration = d,
                  m_durationMS = d * 1000,
                  m_loop = (case lp of None \<Rightarrow> False | Some x \<Rightarrow> x) \<rparr>
         \<and> (if isPlaying s \<and> \<not> allowMultiple s \<and> \<not> force fr \<and> \<not> override s
            then play e (Some name) pos v l fr op (addMarker name start dur vol lp s) =
                   Returned (addMarker name start dur vol lp s)
            else duration (state_of (play e (Some name) pos v l fr op (addMarker name start dur vol lp s))) = d
               \<and> durationMS (state_of (play e (Some name) pos v l fr op (addMarker name start dur vol lp s))) = d * 1000
               \<and> currentMarker (state_of (play e (Some name) pos v l fr op (addMarker name start dur vol lp s))) = name)"
proof -
  let ?m = "\<lparr> m_name = name, m_start = start, m_stop = start + d,
                  m_volume = (case vol of None \<Rightarrow> 1 | Some x \<Rightarrow> x), m_duration = d,
                  m_durationMS = d * 1000,
                  m_loop = (case lp of None \<Rightarrow> False | Some x \<Rightarrow> x) \<rparr>"
  let ?s = "addMarker name start dur vol lp s"
  have m: "map_of (markers ?s) name = Some ?m"
    using assms(3) by (simp add: addMarker_def Let_def update_conv')
  have flags: "isPlaying ?s = isPlaying s" "allowMultiple ?s = allowMultiple s" "override ?s = override s"
    by (simp_all add: addMarker_def Let_def)
  have mk: "markers_get e (markers (play_release (force fr) ?s)) name = Own ?m"
    using m by (simp add: markers_play_release markers_get_def)
  have ne: "markers (play_release (force fr) ?s) \<noteq> []"
    using m by (auto simp: markers_play_release)
  show ?thesis
  proof (cases "isPlaying s \<and> \<not> allowMultiple s \<and> \<not> force fr \<and> \<not> override s")
    case True
    then have "play e (Some name) pos v l fr op ?s = Returned ?s"
      using flags by (simp add: play_def force_def Let_def)
    with True m show ?thesis by simp
  next
    case False
    then have "play e (Some name) pos v l fr op ?s =
          and_then (play_backend e name (case op of None \<Rightarrow> True | Some b \<Rightarrow> b)
                      (play_marker name ?m v l (play_release (force fr) ?s)))
            (\<lambda>s'. Returned (play_once s'))"
      using assms(1) mk ne flags by (auto simp: play_def force_def Let_def)
    then have "duration (state_of (play e (Some name) pos v l fr op ?s)) = d
       \<and> durationMS (state_of (play e (Some name) pos v l fr op ?s)) = d * 1000
       \<and> currentMarker (state_of (play e (Some name) pos v l fr op ?s)) = name"
      using assms(2)
      by (simp add: state_of_and_then_play_once play_backend_duration play_marker_duration)
    with m show ?thesis
      unfolding if_not_P [OF False] by simp
  qed
qed

theorem addMarker_play_witness:
  "duration sprite_playing = 1/2 \<and> durationMS sprite_playing = 500
   \<and> (case map_of (markers sprite) ''explosion'' of None \<Rightarrow> False
       | Some m \<Rightarrow> m_stop m = m_start m + m_duration m \<and> m_stop m = 5/2)"
  using addMarker_play [of "''explosion''" "1/2" "Some (1/2)" 2 None None blip None "env_ready 0" None None None None]
  by (simp add: sprite_playing_def sprite_def blip_def new_Sound_def force_def)

subsection \<open>Fading to a volume\<close>






subsection \<open>removeByKey\<close>

lemma removeByKey_loop_eq:
  "i \<le> length ss \<Longrightarrow>
   removeByKey_loop k i (ss, ds, r) =
     (filter (\<lambda>s. key s \<noteq> k) (take i ss) @ drop i ss,
      map (\<lambda>s. (destroy_keep s)\<lparr>in_manager := False\<rparr>) (filter (\<lambda>s. key s = k) (take i ss)) @ ds,
      length (filter (\<lambda>s. key s = k) (take i ss)) + r)"
proof (induction i arbitrary: ss ds r)
  case 0
  then show ?case by simp
next
  case (Suc i)
  then have i: "i < length ss" by simp
  then have t: "take (Suc i) ss = take i ss @ [ss ! i]"
    by (simp add: take_Suc_conv_app_nth)
  show ?case
  proof (cases "key (ss ! i) = k")
    case True
    have "i \<le> length (take i ss @ drop (Suc i) ss)" using i by simp
    from Suc.IH [OF this] True i t show ?thesis by simp
  next
    case False
    have "i \<le> length ss" using i by simp
    from Suc.IH [OF this] False i t show ?thesis
      by (simp add: Cons_nth_drop_Suc)
  qed
qed

text \<open>
  C9: \<^verbatim>\<open>removeByKey(key)\<close> leaves in the registry the Sounds whose key differs, in their
  order; it has called \<^verbatim>\<open>destroy(false)\<close> on exactly the Sounds whose key matches; and it
  returns their number. On the registry keyed "blip", "blip", "boom" it removes two,
  returns 2 and leaves "boom".
\<close>

theorem removeByKey_removes:
  "removeByKey k m =
     (m\<lparr>priv_sounds := filter (\<lambda>s. key s \<noteq> k) (priv_sounds m)\<rparr>,
      map (\<lambda>s. (destroy_keep s)\<lparr>in_manager := False\<rparr>) (filter (\<lambda>s. key s = k) (priv_sounds m)),
      length (filter (\<lambda>s. key s = k) (priv_sounds m)))"
  by (simp add: removeByKey_def removeByKey_loop_eq)

theorem removeByKey_removes_witness:
  "snd (snd (removeByKey ''blip'' registry)) = 2
   \<and> map key (priv_sounds (fst (removeByKey ''blip'' registry))) = [''boom'']
   \<and> map key (fst (snd (removeByKey ''blip'' registry))) = [''blip'', ''blip'']
   \<and> map key (priv_sounds registry) = [''blip'', ''blip'', ''boom'']"
  using removeByKey_removes [of "''blip''" registry]
  by (simp add: registry_def SoundManager_add_def new_SoundManager_def method_defs)

subsection \<open>An invariant of every history\<close>

lemma wf_initial: "wf (initial web tag cached d k vol lp r)"
  by (simp add: wf_def initial_def new_Sound_def Let_def)

lemma wf_frame [simp]:
  "wf (s\<lparr>sound_name := x0\<rparr>) = wf s" "wf (s\<lparr>key := x1\<rparr>) = wf s"
  "wf (s\<lparr>loop := x2\<rparr>) = wf s" "wf (s\<lparr>markers := x3\<rparr>) = wf s"
  "wf (s\<lparr>totalDuration := x4\<rparr>) = wf s"
  "wf (s\<lparr>startTime := x5\<rparr>) = wf s"
  "wf (s\<lparr>currentTime := x6\<rparr>) = wf s"
  "wf (s\<lparr>duration := x7\<rparr>) = wf s"
  "wf (s\<lparr>durationMS := x8\<rparr>) = wf s"
  "wf (s\<lparr>position := x9\<rparr>) = wf s" "wf (s\<lparr>stopTime := x10\<rparr>) = wf s"
  "wf (s\<lparr>pausedPosition := x11\<rparr>) = wf s"
  "wf (s\<lparr>pausedTime := x12\<rparr>) = wf s"
  "wf (s\<lparr>currentMarker := x13\<rparr>) = wf s"
  "wf (s\<lparr>fadeTween := x14\<rparr>) = wf s"
  "wf (s\<lparr>replaced_tweens := x15\<rparr>) = wf s"
  "wf (s\<lparr>pendingPlayback := x16\<rparr>) = wf s"
  "wf (s\<lparr>override := x17\<rparr>) = wf s"
  "wf (s\<lparr>allowMultiple := x18\<rparr>) = wf s"
  "wf (s\<lparr>playOnce := x19\<rparr>) = wf s"
  "wf (s\<lparr>usingAudioTag := x20\<rparr>) = wf s"
  "wf (s\<lparr>gain := x21\<rparr>) = wf s"
  "wf (s\<lparr>priv_globalVolume := x22\<rparr>) = wf s"
  "wf (s\<lparr>priv_markedToDelete := x23\<rparr>) = wf s"
  "wf (s\<lparr>priv_pendingStart := x24\<rparr>) = wf s"
  "wf (s\<lparr>priv_removeFromSoundManager := x25\<rparr>) = wf s"
  "wf (s\<lparr>priv_sourceId := x26\<rparr>) = wf s"
  "wf (s\<lparr>priv_volume := x27\<rparr>) = wf s"
  "wf (s\<lparr>priv_buffer := x28\<rparr>) = wf s"
  "wf (s\<lparr>priv_muted := x29\<rparr>) = wf s"
  "wf (s\<lparr>priv_tempMarker := x30\<rparr>) = wf s"
  "wf (s\<lparr>priv_tempPosition := x31\<rparr>) = wf s"
  "wf (s\<lparr>priv_tempVolume := x32\<rparr>) = wf s"
  "wf (s\<lparr>priv_tempPause := x33\<rparr>) = wf s"
  "wf (s\<lparr>priv_muteVolume := x34\<rparr>) = wf s"
  "wf (s\<lparr>priv_tempLoop := x35\<rparr>) = wf s"
  "wf (s\<lparr>priv_onDecodedEventDispatched := x36\<rparr>) = wf s"
  "wf (s\<lparr>in_manager := x37\<rparr>) = wf s"
  "wf (s\<lparr>events := x38\<rparr>) = wf s" "wf (s\<lparr>commands := x39\<rparr>) = wf s"
  by (simp_all add: wf_def)

lemma wf_emit [simp]: "wf (emit c s) = wf s"
  by (simp add: wf_def)

lemma wf_dispatch [simp]: "wf (dispatch ev s) = wf s"
  by (simp add: wf_def)

lemma wf_set_volume [simp]: "wf (set_volume v s) = wf s"
  by (simp add: wf_def set_volume_def Let_def)

lemma wf_set_mute [simp]: "wf (set_mute b s) = wf s"
  by (simp add: wf_def set_mute_def Let_def)

lemma wf_release_voice: "wf s \<Longrightarrow> wf ((release_voice s)\<lparr>isPlaying := False\<rparr>)"
  by (auto simp: wf_def release_voice_def stopSourceAndDisconnect_def)

lemma wf_stop: "wf s \<Longrightarrow> wf (stop s)"
  by (auto simp: wf_def stop_def release_voice_def stopSourceAndDisconnect_def Let_def)

lemma not_playing_stop [simp]: "\<not> isPlaying (stop s)"
  by (simp add: stop_def Let_def)

lemma wf_and_then:
  assumes "wf (state_of r)" and "\<And>s. wf s \<Longrightarrow> wf (state_of (f s))"
  shows "wf (state_of (and_then r f))"
  using assms by (cases r) simp_all

lemma wf_play_release: "wf s \<Longrightarrow> wf (play_release fr s)"
  by (simp add: play_release_def wf_release_voice)

lemma wf_play_marker: "wf s \<Longrightarrow> wf (play_marker mk m vol lp s)"
  by (simp add: play_marker_def Let_def split: option.splits)

lemma wf_play_whole: "wf s \<Longrightarrow> wf (play_whole pos vol lp s)"
  by (simp add: play_whole_def Let_def split: option.splits)

lemma wf_play_once: "wf s \<Longrightarrow> wf (play_once s)"
  by (simp add: play_once_def)

lemma play_source_core:
  "isPlaying (play_source e mk op s)" "\<not> paused (play_source e mk op s)"
  "priv_sound (play_source e mk op s) = priv_sound s"
  "audio_context (play_source e mk op s) = audio_context s"
  "usingWebAudio (play_source e mk op s) = usingWebAudio s"
  by (simp_all add: play_source_def Let_def)

lemma play_element_core:
  "isPlaying (play_element e op s)" "\<not> paused (play_element e op s)"
  "priv_sound (play_element e op s) = priv_sound s"
  "audio_context (play_element e op s) = audio_context s"
  "usingWebAudio (play_element e op s) = usingWebAudio s"
  by (simp_all add: play_element_def Let_def)

lemma wf_play_backend: "wf s \<Longrightarrow> wf (state_of (play_backend e mk op s))"
  by (auto simp: wf_def play_backend_def play_source_core play_element_core
      createSourceAndConnect_def Let_def split: option.splits)

lemma wf_play: "wf s \<Longrightarrow> wf (state_of (play e marker pos vol lp fr op s))"
  by (auto simp: play_def Let_def wf_play_release wf_play_marker wf_play_whole wf_play_once
      wf_play_backend intro!: wf_and_then split: option.splits slot.splits)

lemma wf_pause: "wf s \<Longrightarrow> wf (state_of (pause e s))"
proof -
  assume w: "wf s"
  show ?thesis
  proof (cases "isPlaying s")
    case False
    with w show ?thesis by (simp add: pause_def)
  next
    case True
    with w obtain v where v: "priv_sound s = Some v" by (auto simp: wf_def)
    let ?s1 = "dispatch OnPause (s\<lparr>paused := True, pausedPosition := currentTime s,
                 pausedTime := time e, priv_tempPause := voice_currentTime e (key s) v\<rparr>)"
    have "pause e s = Returned (stop ?s1)"
      using True v by (simp add: pause_def Let_def)
    moreover have "wf (stop ?s1)"
      using w v by (auto simp: wf_def stop_def release_voice_def stopSourceAndDisconnect_def Let_def)
    ultimately show ?thesis by simp
  qed
qed

lemma wf_resume: "wf s \<Longrightarrow> wf (state_of (resume e s))"
  by (auto simp: wf_def resume_def resume_source_def resume_element_def
      createSourceAndConnect_def Let_def split: option.splits)

lemma wf_destroy_keep: "wf s \<Longrightarrow> wf (destroy_keep s)"
proof -
  assume "wf s"
  then have "wf (s\<lparr>priv_markedToDelete := True, priv_removeFromSoundManager := False\<rparr>)"
    by (simp add: wf_def)
  from wf_stop [OF this] show ?thesis
    by (simp add: destroy_keep_def destroy_clear_def wf_def)
qed

lemma wf_manager_remove: "wf s \<Longrightarrow> wf (manager_remove s)"
  using wf_destroy_keep [of s] by (simp add: manager_remove_def wf_def)

lemma wf_destroy: "wf s \<Longrightarrow> wf (destroy remove s)"
proof -
  assume w: "wf s"
  then have "wf (s\<lparr>priv_markedToDelete := True, priv_removeFromSoundManager := True\<rparr>)"
    by (simp add: wf_def)
  from wf_manager_remove [OF wf_stop [OF this]] wf_destroy_keep [OF w] show ?thesis
    by (simp add: destroy_def Let_def)
qed

lemma wf_off: "wf s \<Longrightarrow> wf (s\<lparr>isPlaying := False\<rparr>)"
  by (simp add: wf_def)

lemma wf_update_complete:
  assumes "wf s" and "isPlaying s"
  shows "wf (state_of (update_complete e s))"
proof (cases "usingWebAudio s")
  case web: True
  show ?thesis
  proof (cases "loop s")
    case True
    show ?thesis
    proof (cases "currentMarker s = []")
      case True
      with web \<open>loop s\<close> assms show ?thesis
        by (simp add: update_complete_def Let_def wf_def)
    next
      case False
      with web \<open>loop s\<close> assms show ?thesis
        by (simp add: update_complete_def Let_def wf_play wf_off)
    qed
  next
    case False
    with web assms show ?thesis
      by (simp add: update_complete_def wf_stop)
  qed
next
  case tag: False
  show ?thesis
  proof (cases "loop s")
    case True
    with tag assms show ?thesis
      by (simp add: update_complete_def Let_def wf_play wf_off)
  next
    case False
    with tag assms show ?thesis
      by (simp add: update_complete_def wf_stop)
  qed
qed

lemma wf_update_advance:
  assumes "wf s" and "isPlaying s"
  shows "wf (state_of (update_advance e s))"
  using assms wf_update_complete [of "s\<lparr>currentTime := time e - startTime s\<rparr>" e]
  by (simp add: update_advance_def Let_def)

lemma wf_update_playing: "wf s \<Longrightarrow> wf (state_of (update_playing e s))"
  by (auto simp: update_playing_def wf_update_advance split: option.splits)

lemma wf_update: "wf s \<Longrightarrow> wf (state_of (update e s))"
  by (auto simp: update_def Let_def wf_destroy wf_play wf_update_playing
      intro!: wf_and_then)

lemma wf_fadeTo: "wf s \<Longrightarrow> wf (fadeTo dur vol s)"
  by (simp add: fadeTo_def split: option.splits)

lemma wf_fadeComplete: "wf s \<Longrightarrow> wf (fadeComplete s)"
  by (simp add: fadeComplete_def Let_def wf_stop)

lemma wf_fadeTween_complete: "wf s \<Longrightarrow> wf (fadeTween_complete s)"
  by (simp add: fadeTween_complete_def wf_fadeComplete split: option.splits)

lemma wf_replaced_tween_complete: "wf s \<Longrightarrow> wf (replaced_tween_complete i s)"
  by (simp add: replaced_tween_complete_def wf_fadeComplete)

lemma wf_fadeIn: "wf s \<Longrightarrow> wf (state_of (fadeIn e dur lp marker s))"
  by (auto simp: fadeIn_def Let_def wf_play wf_fadeTo intro!: wf_and_then)

lemma wf_soundHasUnlocked: "wf s \<Longrightarrow> wf (soundHasUnlocked k d s)"
  by (simp add: soundHasUnlocked_def wf_def)

lemma wf_destroy_clear: "wf s \<Longrightarrow> \<not> isPlaying s \<Longrightarrow> wf (destroy_clear s)"
  by (simp add: destroy_clear_def wf_def)

lemma wf_onEndedHandler: "wf s \<Longrightarrow> wf (state_of (onEndedHandler s))"
proof -
  assume w: "wf s"
  let ?s1 = "stop ((emit (SourceOnEnded False) s)\<lparr>isPlaying := False, currentTime := durationMS s\<rparr>)"
  have 1: "wf ?s1" using w by (simp add: wf_stop wf_off)
  have 2: "\<not> isPlaying ?s1" by simp
  show ?thesis
    using w 1 2
    by (auto simp: onEndedHandler_def Let_def wf_manager_remove wf_destroy_clear
        split: option.splits)
qed

lemma wf_step: "wf s \<Longrightarrow> wf (step c s)"
  by (cases c)
    (simp_all add: wf_play wf_pause wf_resume wf_stop wf_update wf_destroy wf_manager_remove
      addMarker_def removeMarker_def Let_def wf_fadeTo fadeOut_def wf_fadeIn
      wf_fadeTween_complete wf_replaced_tween_complete wf_soundHasUnlocked wf_onEndedHandler
      restart_def loopFull_def)

lemma wf_run: "wf s \<Longrightarrow> wf (run cs s)"
  unfolding run_def by (induction cs arbitrary: s) (simp_all add: wf_step)

text \<open>
  In every state a Sound reaches from its construction, through any calls of its methods,
  assignments to its properties and callbacks, at most one of \<^verbatim>\<open>isPlaying\<close> and \<^verbatim>\<open>paused\<close> is
  true.
\<close>

lemma isPlaying_paused_exclusive:
  "\<not> (isPlaying (run cs (initial web tag cached d k vol lp r))
       \<and> paused (run cs (initial web tag cached d k vol lp r)))"
  using wf_run [OF wf_initial, of cs web tag cached d k vol lp r]
  by (simp add: wf_def)

text \<open>
  C3: the code breaks the second half of the invariant. A \<^verbatim>\<open>play\<close> that finds the asset
  undecoded sets \<^verbatim>\<open>pendingPlayback\<close>; a second \<^verbatim>\<open>play\<close>, once the asset is decoded, starts at
  once and sets \<^verbatim>\<open>isPlaying\<close> without clearing the flag, which \<^verbatim>\<open>stop\<close> and the retry of
  \<^verbatim>\<open>update\<close> do clear. The Sound is then playing and pending at once, and the next \<^verbatim>\<open>update\<close>
  takes it for pending and plays it again: a second source, a second \<^verbatim>\<open>onPlay\<close>.
\<close>

theorem pendingPlayback_survives_play:
  "isPlaying (run [Play (env_undecoded 0) None None None None None None,
                   Play (env_ready 5) None None None None None None]
               (initial True False False None ''blip'' None None False))
   \<and> pendingPlayback (run [Play (env_undecoded 0) None None None None None None,
                          Play (env_ready 5) None None None None None None]
                      (initial True False False None ''blip'' None None False))
   \<and> events (run [Play (env_undecoded 0) None None None None None None,
                  Play (env_ready 5) None None None None None None]
              (initial True False False None ''blip'' None None False)) = [OnPlay]
   \<and> events (run [Play (env_undecoded 0) None None None None None None,
                  Play (env_ready 5) None None None None None None,
                  Update (env_ready 16)]
              (initial True False False None ''blip'' None None False))
       = [OnPlay, OnDecoded, OnPlay]
   \<and> priv_sourceId (run [Play (env_undecoded 0) None None None None None None,
                         Play (env_ready 5) None None None None None None,
                         Update (env_ready 16)]
                     (initial True False False None ''blip'' None None False)) = 2"
  by (simp add: run_def initial_def update_def update_playing_def update_advance_def
      method_defs)

subsection \<open>pause, then resume\<close>

lemma resume_source_fields:
  assumes "audio_context s"
  shows "\<exists>s2. resume_source s = Returned s2 \<and> currentMarker s2 = currentMarker s
           \<and> startTime s2 = startTime s \<and> events s2 = events s
           \<and> pausedTime s2 = pausedTime s"
  using assms by (simp add: resume_source_def createSourceAndConnect_def Let_def)

lemma resume_element_fields:
  assumes "priv_sound s = Some v" and "priv_tempPause s = Some t"
  shows "\<exists>s2. resume_element s = Returned s2 \<and> currentMarker s2 = currentMarker s
           \<and> startTime s2 = startTime s \<and> events s2 = events s
           \<and> pausedTime s2 = pausedTime s"
  using assms by (simp add: resume_element_def Let_def)

lemma release_voice_element:
  "\<not> usingWebAudio s \<Longrightarrow> priv_sound (release_voice s) = priv_sound s"
  by (simp add: release_voice_def)

lemma pause_resume_wf:
  assumes "wf s" and "isPlaying s"
  shows "(case pause e1 s of
            Threw s1 \<Rightarrow> False
          | Undefined s1 \<Rightarrow> False
          | Returned s1 \<Rightarrow>
              (case resume e2 s1 of
                 Threw s2 \<Rightarrow> False
               | Undefined s2 \<Rightarrow> False
               | Returned s2 \<Rightarrow>
                   currentMarker s1 = currentMarker s \<and> currentMarker s2 = currentMarker s
                   \<and> isPlaying s2 \<and> \<not> paused s2
                   \<and> startTime s2 = startTime s + (time e2 - time e1)
                   \<and> events s1 = events s @ [OnPause]
                   \<and> events s2 = events s @ [OnPause, OnResume]))"
proof -
  from assms obtain v where v: "priv_sound s = Some v" by (auto simp: wf_def)
  let ?p = "dispatch OnPause (s\<lparr>paused := True, pausedPosition := currentTime s,
              pausedTime := time e1, priv_tempPause := voice_currentTime e1 (key s) v\<rparr>)"
  let ?s1 = "(release_voice ?p)\<lparr>pendingPlayback := False, isPlaying := False\<rparr>"
  have p: "pause e1 s = Returned ?s1"
    using assms(2) v by (simp add: pause_def stop_def Let_def)
  have s1: "paused ?s1" "currentMarker ?s1 = currentMarker s" "startTime ?s1 = startTime s"
    "events ?s1 = events s @ [OnPause]" "pausedTime ?s1 = time e1"
    "usingWebAudio ?s1 = usingWebAudio s" "audio_context ?s1 = audio_context s"
    by simp_all
  have "\<exists>s2. (if usingWebAudio ?s1 then resume_source ?s1 else resume_element ?s1) = Returned s2
          \<and> currentMarker s2 = currentMarker ?s1 \<and> startTime s2 = startTime ?s1
          \<and> events s2 = events ?s1 \<and> pausedTime s2 = pausedTime ?s1"
  proof (cases "usingWebAudio s")
    case True
    with assms have "audio_context ?s1" by (simp add: wf_def)
    from resume_source_fields [OF this] True show ?thesis by simp
  next
    case False
    with assms v have ve: "v = AudioElement" by (cases v) (auto simp: wf_def)
    have a: "priv_sound ?s1 = Some v"
      using False v by (simp add: release_voice_element)
    have b: "priv_tempPause ?s1 = Some (element_currentTime e1 (key s))"
      using ve by simp
    from resume_element_fields [OF a b] False show ?thesis by simp
  qed
  then obtain s2 where r: "(if usingWebAudio ?s1 then resume_source ?s1 else resume_element ?s1) = Returned s2"
    and f: "currentMarker s2 = currentMarker ?s1" "startTime s2 = startTime ?s1"
      "events s2 = events ?s1" "pausedTime s2 = pausedTime ?s1"
    by blast
  have "resume e2 ?s1 = Returned (dispatch OnResume (s2\<lparr>isPlaying := True, paused := False,
           startTime := startTime s2 + (time e2 - pausedTime s2)\<rparr>))"
    using r by (simp add: resume_def)
  with p f show ?thesis by simp
qed

text \<open>
  C5: on a Sound that is playing, in any state it can reach from its construction,
  \<^verbatim>\<open>pause\<close> and then \<^verbatim>\<open>resume\<close> both return; \<^verbatim>\<open>currentMarker\<close> is the same after each; the
  Sound ends playing and not paused; \<^verbatim>\<open>startTime\<close> has moved forward by the time between
  the two calls; and the only signals dispatched are \<^verbatim>\<open>onPause\<close> and \<^verbatim>\<open>onResume\<close>.
\<close>

theorem pause_resume:
  assumes "s = run cs (initial web tag cached d k vol lp r)" and "isPlaying s"
  shows "(case pause e1 s of
            Threw s1 \<Rightarrow> False
          | Undefined s1 \<Rightarrow> False
          | Returned s1 \<Rightarrow>
              (case resume e2 s1 of
                 Threw s2 \<Rightarrow> False
               | Undefined s2 \<Rightarrow> False
               | Returned s2 \<Rightarrow>
                   currentMarker s1 = currentMarker s \<and> currentMarker s2 = currentMarker s
                   \<and> isPlaying s2 \<and> \<not> paused s2
                   \<and> startTime s2 = startTime s + (time e2 - time e1)
                   \<and> events s1 = events s @ [OnPause]
                   \<and> events s2 = events s @ [OnPause, OnResume]))"
  using pause_resume_wf [OF _ assms(2)] wf_run [OF wf_initial] assms(1) by simp

theorem pause_resume_witness:
  "isPlaying (run [AddMarker ''explosion'' 2 (Some (1/2)) None None,
                   Play (env_ready 0) (Some ''explosion'') None None None None None]
               (initial True False False None ''blip'' None None False))
   \<and> (case pause (env_ready 10)
              (run [AddMarker ''explosion'' 2 (Some (1/2)) None None,
                    Play (env_ready 0) (Some ''explosion'') None None None None None]
                (initial True False False None ''blip'' None None False)) of
         Threw s1 \<Rightarrow> False
       | Undefined s1 \<Rightarrow> False
       | Returned s1 \<Rightarrow>
           (case resume (env_ready 25) s1 of
              Threw s2 \<Rightarrow> False
            | Undefined s2 \<Rightarrow> False
            | Returned s2 \<Rightarrow>
                startTime s2 = 15 \<and> currentMarker s2 = ''explosion'' \<and> isPlaying s2
                \<and> events s2 = [OnPlay, OnPause, OnResume]))"
  using pause_resume [OF refl, of "[AddMarker ''explosion'' 2 (Some (1/2)) None None,
                   Play (env_ready 0) (Some ''explosion'') None None None None None]"
      True False False None "''blip''" None None False "env_ready 10" "env_ready 25"]
  by (simp add: run_def initial_def method_defs)

subsection \<open>The decode watch\<close>

lemma watch_sweep_subset: "set (watch_sweep e l) \<subseteq> set l"
  by (induction l) auto

lemma watch_sweep_removed:
  "k \<in> set l \<Longrightarrow> k \<notin> set (watch_sweep e l) \<Longrightarrow> isSoundDecoded e k"
  by (induction l) (auto split: if_splits)

lemma watch_sweep_all:
  "[] \<notin> set l \<Longrightarrow> \<forall>k\<in>set l. isSoundDecoded e k \<Longrightarrow> watch_sweep e l = []"
  by (induction l) auto

lemma set_ArraySet_add: "set (ArraySet_add k l) = insert k (set l)"
  by (auto simp: ArraySet_add_def)

lemma set_watch_collect:
  "set (watch_collect e fs l) = set l \<union> {file_key f |f. f \<in> set fs \<and> \<not> isSoundDecoded e (file_key f)}"
  by (induction fs arbitrary: l) (auto simp: set_ArraySet_add)

text \<open>What a tick can do to the watch: nothing, or what \<^verbatim>\<open>update_watch\<close> does.\<close>

lemma watch_of_sounds [simp]: "watch_of (m\<lparr>priv_sounds := ss\<rparr>) = watch_of m"
  by (simp add: watch_of_def)

lemma tick_cases:
  "watch_of (state_of (SoundManager_update e m)) = watch_of m
   \<or> (\<exists>ss. \<not> noAudio m \<and> SoundManager_update e m = update_watch e (m\<lparr>priv_sounds := ss\<rparr>))"
  by (cases "update_sounds e 0 (priv_sounds m)") (auto simp: SoundManager_update_def)

lemma tick_noAudio [simp]: "noAudio (state_of (SoundManager_update e m)) = noAudio m"
  by (cases "update_sounds e 0 (priv_sounds m)")
    (auto simp: SoundManager_update_def update_watch_def Let_def split: option.splits)

lemma tick_idle:
  assumes "\<not> priv_watching m"
  shows "watch_of (state_of (SoundManager_update e m)) = watch_of m"
  using tick_cases [of e m] assms by (auto simp: update_watch_def)

lemma ticks_idle:
  "\<not> priv_watching m \<Longrightarrow> watch_of (ticks es m) = watch_of m"
proof (induction es arbitrary: m)
  case Nil
  then show ?case by (simp add: ticks_def)
next
  case (Cons e es)
  let ?m1 = "state_of (SoundManager_update e m)"
  have 1: "watch_of ?m1 = watch_of m" using Cons.prems by (rule tick_idle)
  then have "\<not> priv_watching ?m1" using Cons.prems by (simp add: watch_of_def)
  from Cons.IH [OF this] 1 show ?case by (simp add: ticks_def)
qed

lemma update_watch_watching:
  assumes "priv_watching m" and "priv_watchCallback m = Some cb"
  shows "update_watch e m =
           Returned (if watch_sweep e (priv_watchList m) = []
                     then m\<lparr>priv_watchList := [], priv_watching := False, calls := calls m @ [cb]\<rparr>
                     else m\<lparr>priv_watchList := watch_sweep e (priv_watchList m)\<rparr>)"
  using assms by (simp add: update_watch_def Let_def)

lemma tick_watching:
  assumes "priv_watching m" and "priv_watchCallback m = Some cb"
  shows "(priv_watching (state_of (SoundManager_update e m))
          \<and> priv_watchCallback (state_of (SoundManager_update e m)) = Some cb
          \<and> calls (state_of (SoundManager_update e m)) = calls m
          \<and> (priv_watchList (state_of (SoundManager_update e m)) = priv_watchList m
             \<or> priv_watchList (state_of (SoundManager_update e m)) = watch_sweep e (priv_watchList m)))
       \<or> (\<not> priv_watching (state_of (SoundManager_update e m))
          \<and> calls (state_of (SoundManager_update e m)) = calls m @ [cb]
          \<and> watch_sweep e (priv_watchList m) = [])"
proof -
  from tick_cases [of e m] show ?thesis
  proof
    assume "watch_of (state_of (SoundManager_update e m)) = watch_of m"
    with assms show ?thesis by (simp add: watch_of_def)
  next
    assume "\<exists>ss. \<not> noAudio m \<and> SoundManager_update e m = update_watch e (m\<lparr>priv_sounds := ss\<rparr>)"
    then obtain ss where u: "SoundManager_update e m = update_watch e (m\<lparr>priv_sounds := ss\<rparr>)"
      by blast
    show ?thesis
    proof (cases "watch_sweep e (priv_watchList m) = []")
      case True
      with u assms show ?thesis
        using update_watch_watching [of "m\<lparr>priv_sounds := ss\<rparr>" cb e] by simp
    next
      case False
      with u assms show ?thesis
        using update_watch_watching [of "m\<lparr>priv_sounds := ss\<rparr>" cb e] by simp
    qed
  qed
qed

text \<open>Safety over any number of ticks.\<close>

lemma ticks_Cons: "ticks (e # es) m = ticks es (state_of (SoundManager_update e m))"
  by (simp add: ticks_def)

lemma ticks_append: "ticks (es1 @ es2) m = ticks es2 (ticks es1 m)"
  by (simp add: ticks_def)

lemma ticks_noAudio [simp]: "noAudio (ticks es m) = noAudio m"
  by (induction es arbitrary: m) (simp_all add: ticks_def)

lemma ticks_watching:
  assumes "priv_watching m" and "priv_watchCallback m = Some cb"
  shows "(priv_watching (ticks es m) \<and> priv_watchCallback (ticks es m) = Some cb
          \<and> calls (ticks es m) = calls m
          \<and> set (priv_watchList (ticks es m)) \<subseteq> set (priv_watchList m)
          \<and> (\<forall>k\<in>set (priv_watchList m).
                k \<in> set (priv_watchList (ticks es m)) \<or> (\<exists>e\<in>set es. isSoundDecoded e k)))
       \<or> (\<not> priv_watching (ticks es m) \<and> calls (ticks es m) = calls m @ [cb]
          \<and> (\<forall>k\<in>set (priv_watchList m). \<exists>e\<in>set es. isSoundDecoded e k))"
  using assms
proof (induction es arbitrary: m)
  case Nil
  then show ?case by (simp add: ticks_def)
next
  case (Cons e es)
  let ?m1 = "state_of (SoundManager_update e m)"
  from tick_watching [OF Cons.prems, of e] show ?case
  proof
    assume a: "priv_watching ?m1 \<and> priv_watchCallback ?m1 = Some cb \<and> calls ?m1 = calls m
      \<and> (priv_watchList ?m1 = priv_watchList m \<or> priv_watchList ?m1 = watch_sweep e (priv_watchList m))"
    then have sub: "set (priv_watchList ?m1) \<subseteq> set (priv_watchList m)"
      using watch_sweep_subset [of e "priv_watchList m"] by auto
    have gone: "\<And>k. k \<in> set (priv_watchList m) \<Longrightarrow> k \<notin> set (priv_watchList ?m1)
                  \<Longrightarrow> isSoundDecoded e k"
      using a watch_sweep_removed [of _ "priv_watchList m" e] by auto
    from a have w: "priv_watching ?m1" and c: "priv_watchCallback ?m1 = Some cb"
      and cl: "calls ?m1 = calls m" by simp_all
    from Cons.IH [OF w c] show ?thesis
    proof
      assume b: "priv_watching (ticks es ?m1) \<and> priv_watchCallback (ticks es ?m1) = Some cb
          \<and> calls (ticks es ?m1) = calls ?m1
          \<and> set (priv_watchList (ticks es ?m1)) \<subseteq> set (priv_watchList ?m1)
          \<and> (\<forall>k\<in>set (priv_watchList ?m1).
                k \<in> set (priv_watchList (ticks es ?m1)) \<or> (\<exists>e\<in>set es. isSoundDecoded e k))"
      have "\<forall>k\<in>set (priv_watchList m).
              k \<in> set (priv_watchList (ticks es ?m1)) \<or> (\<exists>e'\<in>set (e # es). isSoundDecoded e' k)"
      proof
        fix k assume k: "k \<in> set (priv_watchList m)"
        show "k \<in> set (priv_watchList (ticks es ?m1)) \<or> (\<exists>e'\<in>set (e # es). isSoundDecoded e' k)"
        proof (cases "k \<in> set (priv_watchList ?m1)")
          case True
          with b show ?thesis by auto
        next
          case False
          from gone [OF k False] show ?thesis by simp
        qed
      qed
      with b cl sub show ?thesis by (auto simp: ticks_Cons)
    next
      assume b: "\<not> priv_watching (ticks es ?m1) \<and> calls (ticks es ?m1) = calls ?m1 @ [cb]
          \<and> (\<forall>k\<in>set (priv_watchList ?m1). \<exists>e\<in>set es. isSoundDecoded e k)"
      have "\<forall>k\<in>set (priv_watchList m). \<exists>e'\<in>set (e # es). isSoundDecoded e' k"
      proof
        fix k assume k: "k \<in> set (priv_watchList m)"
        show "\<exists>e'\<in>set (e # es). isSoundDecoded e' k"
        proof (cases "k \<in> set (priv_watchList ?m1)")
          case True
          with b show ?thesis by auto
        next
          case False
          from gone [OF k False] show ?thesis by simp
        qed
      qed
      with b cl show ?thesis by (simp add: ticks_Cons)
    qed
  next
    assume a: "\<not> priv_watching ?m1 \<and> calls ?m1 = calls m @ [cb]
      \<and> watch_sweep e (priv_watchList m) = []"
    then have "\<forall>k\<in>set (priv_watchList m). isSoundDecoded e k"
      using watch_sweep_removed [of _ "priv_watchList m" e] by auto
    moreover from a ticks_idle [of ?m1 es] have "\<not> priv_watching (ticks es ?m1)"
      and "calls (ticks es ?m1) = calls m @ [cb]"
      by (simp_all add: watch_of_def)
    ultimately show ?thesis by (auto simp: ticks_Cons)
  qed
qed

text \<open>Liveness: a tick that runs to its end with every watched key decoded fires.\<close>

lemma tick_fires:
  assumes "priv_watching m" and "priv_watchCallback m = Some cb" and "\<not> noAudio m"
    and "SoundManager_update e m = Returned m1" and "[] \<notin> set (priv_watchList m)"
    and "\<forall>k\<in>set (priv_watchList m). isSoundDecoded e k"
  shows "\<not> priv_watching m1 \<and> calls m1 = calls m @ [cb]"
proof (cases "update_sounds e 0 (priv_sounds m)")
  case (Threw ss)
  with assms(3,4) show ?thesis by (simp add: SoundManager_update_def)
next
  case (Returned ss)
  have "watch_sweep e (priv_watchList m) = []"
    using assms(5,6) by (rule watch_sweep_all)
  with Returned assms(1-4) update_watch_watching [of "m\<lparr>priv_sounds := ss\<rparr>" cb e]
  show ?thesis by (auto simp: SoundManager_update_def)
next
  case (Undefined ss)
  with assms(3,4) show ?thesis by (simp add: SoundManager_update_def)
qed

lemma all_return_append:
  "all_return (es1 @ es2) m = (all_return es1 m \<and> all_return es2 (ticks es1 m))"
proof (induction es1 arbitrary: m)
  case Nil
  then show ?case by (simp add: ticks_def)
next
  case (Cons e es1)
  then show ?case
    by (cases "SoundManager_update e m") (simp_all add: ticks_Cons)
qed

lemma ticks_live:
  assumes "priv_watching m" and "priv_watchCallback m = Some cb" and "\<not> noAudio m"
    and "all_return (es1 @ es2) m" and "[] \<notin> set (priv_watchList m)" and "es2 \<noteq> []"
    and "\<forall>e\<in>set es2. \<forall>k\<in>set (priv_watchList m). isSoundDecoded e k"
  shows "calls (ticks (es1 @ es2) m) = calls m @ [cb]"
proof -
  let ?mt = "ticks es1 m"
  from assms(4) have r2: "all_return es2 ?mt" by (simp add: all_return_append)
  from ticks_watching [OF assms(1,2), of es1] show ?thesis
  proof
    assume a: "priv_watching ?mt \<and> priv_watchCallback ?mt = Some cb \<and> calls ?mt = calls m
          \<and> set (priv_watchList ?mt) \<subseteq> set (priv_watchList m)
          \<and> (\<forall>k\<in>set (priv_watchList m).
                k \<in> set (priv_watchList ?mt) \<or> (\<exists>e\<in>set es1. isSoundDecoded e k))"
    from assms(6) obtain e es' where es2: "es2 = e # es'" by (cases es2) auto
    with r2 obtain m1 where u: "SoundManager_update e ?mt = Returned m1"
      by (cases "SoundManager_update e ?mt") auto
    have "[] \<notin> set (priv_watchList ?mt)" using a assms(5) by auto
    moreover have "\<forall>k\<in>set (priv_watchList ?mt). isSoundDecoded e k"
      using a assms(7) es2 by auto
    moreover have "\<not> noAudio ?mt" using assms(3) by simp
    ultimately have f: "\<not> priv_watching m1 \<and> calls m1 = calls ?mt @ [cb]"
      using a u tick_fires [of ?mt cb e m1] by blast
    with ticks_idle [of m1 es'] have "calls (ticks es' m1) = calls ?mt @ [cb]"
      by (simp add: watch_of_def)
    with a u es2 show ?thesis by (simp add: ticks_append ticks_Cons)
  next
    assume b: "\<not> priv_watching ?mt \<and> calls ?mt = calls m @ [cb]
          \<and> (\<forall>k\<in>set (priv_watchList m). \<exists>e\<in>set es1. isSoundDecoded e k)"
    with ticks_idle [of ?mt es2] show ?thesis
      by (simp add: ticks_append watch_of_def)
  qed
qed

lemma setDecodedCallback_fields:
  "priv_watchList (setDecodedCallback e files cb m) = watch_collect e files []"
  "noAudio (setDecodedCallback e files cb m) = noAudio m"
  "watch_collect e files [] = [] \<Longrightarrow>
     \<not> priv_watching (setDecodedCallback e files cb m)
     \<and> calls (setDecodedCallback e files cb m) = calls m @ [cb]"
  "watch_collect e files [] \<noteq> [] \<Longrightarrow>
     priv_watching (setDecodedCallback e files cb m)
     \<and> priv_watchCallback (setDecodedCallback e files cb m) = Some cb
     \<and> calls (setDecodedCallback e files cb m) = calls m"
  by (simp_all add: setDecodedCallback_def Let_def)

lemma watch_collect_empty:
  "(watch_collect e files [] = []) = list_all (\<lambda>f. isSoundDecoded e (file_key f)) files"
proof -
  have "(watch_collect e files [] = []) = (set (watch_collect e files []) = {})" by simp
  also have "\<dots> = list_all (\<lambda>f. isSoundDecoded e (file_key f)) files"
    unfolding set_watch_collect by (auto simp: list_all_iff)
  finally show ?thesis .
qed

text \<open>
  C7, as the spec states it, fails: a key can report decoded on every tick without \<open>cb\<close>
  ever being invoked. \<^verbatim>\<open>update\<close> returns at once when the manager has no audio, and its
  \<^verbatim>\<open>while (key)\<close> loop ends at a key that is the empty string, which is then never removed.
\<close>

theorem setDecodedCallback_counterexample:
  "\<not> isSoundDecoded (env_undecoded 0) ''a'' \<and> isSoundDecoded (env_ready 16) ''a''
   \<and> isSoundDecoded (env_ready 32) ''a''
   \<and> calls (ticks [env_ready 16, env_ready 32]
              (setDecodedCallback (env_undecoded 0) [Key ''a''] 7
                 (new_SoundManager True False False))) = []
   \<and> calls (ticks [env_ready 16, env_ready 32]
              (setDecodedCallback (env_undecoded 0) [Key []] 7
                 (new_SoundManager False True False))) = []"
  by (simp add: Let_def ticks_def setDecodedCallback_def ArraySet_add_def new_SoundManager_def
      SoundManager_update_def update_watch_def env_undecoded_def env_ready_def)

text \<open>
  C7, amended: \<^verbatim>\<open>setDecodedCallback(files, cb)\<close>. If every key reports decoded at the call,
  \<open>cb\<close> is invoked in the call, once, and no later tick invokes it again. Otherwise the call
  does not invoke it, and over any run of \<^verbatim>\<open>update\<close> ticks: it is invoked at most once; it has
  been invoked only if every key has reported decoded, at the call or at one of the ticks so
  far; and, for a manager with audio, for ticks in which no Sound's \<^verbatim>\<open>update\<close> throws and for
  keys that are not the empty string, it has been invoked once the ticks have run to their
  end with every key reporting decoded, one tick for each file being always enough.
\<close>

theorem setDecodedCallback_once:
  "(let m' = setDecodedCallback e files cb m in
    if list_all (\<lambda>f. isSoundDecoded e (file_key f)) files
    then calls m' = calls m @ [cb] \<and> (\<forall>es. calls (ticks es m') = calls m @ [cb])
    else calls m' = calls m
       \<and> (\<forall>es. (calls (ticks es m') = calls m \<or> calls (ticks es m') = calls m @ [cb])
             \<and> (calls (ticks es m') = calls m @ [cb] \<longrightarrow>
                  (\<forall>f\<in>set files. isSoundDecoded e (file_key f)
                                 \<or> (\<exists>e'\<in>set es. isSoundDecoded e' (file_key f)))))
       \<and> (\<forall>es1 es2.
             \<not> noAudio m \<and> all_return (es1 @ es2) m' \<and> (\<forall>f\<in>set files. file_key f \<noteq> [])
             \<and> length files \<le> length es2
             \<and> (\<forall>e'\<in>set es2. \<forall>f\<in>set files. isSoundDecoded e' (file_key f))
             \<longrightarrow> calls (ticks (es1 @ es2) m') = calls m @ [cb]))"
proof (cases "list_all (\<lambda>f. isSoundDecoded e (file_key f)) files")
  case True
  let ?m' = "setDecodedCallback e files cb m"
  from True have w: "watch_collect e files [] = []" by (simp add: watch_collect_empty)
  from setDecodedCallback_fields(3) [OF w, of cb m]
  have i: "\<not> priv_watching ?m'" and c: "calls ?m' = calls m @ [cb]" by simp_all
  from ticks_idle [OF i] c have "\<forall>es. calls (ticks es ?m') = calls m @ [cb]"
    by (simp add: watch_of_def)
  with True c show ?thesis by (simp add: Let_def)
next
  case False
  let ?m' = "setDecodedCallback e files cb m"
  from False have w: "watch_collect e files [] \<noteq> []" by (simp add: watch_collect_empty)
  from setDecodedCallback_fields(4) [OF w, of cb m]
  have i: "priv_watching ?m'" and cb: "priv_watchCallback ?m' = Some cb"
    and c: "calls ?m' = calls m" by simp_all
  have l: "priv_watchList ?m' = watch_collect e files []"
    by (rule setDecodedCallback_fields(1))
  have mem: "\<And>f. f \<in> set files \<Longrightarrow>
               isSoundDecoded e (file_key f) \<or> file_key f \<in> set (priv_watchList ?m')"
    unfolding l set_watch_collect by auto
  have keys: "\<And>k. k \<in> set (priv_watchList ?m') \<Longrightarrow> \<exists>f\<in>set files. k = file_key f"
    unfolding l set_watch_collect by auto
  have safe: "(calls (ticks es ?m') = calls m \<or> calls (ticks es ?m') = calls m @ [cb])
       \<and> (calls (ticks es ?m') = calls m @ [cb] \<longrightarrow>
            (\<forall>f\<in>set files. isSoundDecoded e (file_key f)
                           \<or> (\<exists>e'\<in>set es. isSoundDecoded e' (file_key f))))" for es
    using ticks_watching [OF i cb, of es] c mem by auto
  have live: "calls (ticks (es1 @ es2) ?m') = calls m @ [cb]"
    if h: "\<not> noAudio m" "all_return (es1 @ es2) ?m'" "\<forall>f\<in>set files. file_key f \<noteq> []"
      "length files \<le> length es2" "\<forall>e'\<in>set es2. \<forall>f\<in>set files. isSoundDecoded e' (file_key f)"
    for es1 es2
  proof -
    from False have "files \<noteq> []" by auto
    with h(4) have ne: "es2 \<noteq> []" by auto
    have k0: "[] \<notin> set (priv_watchList ?m')"
    proof
      assume "[] \<in> set (priv_watchList ?m')"
      from keys [OF this] h(3) show False by force
    qed
    have dec: "\<forall>e'\<in>set es2. \<forall>k\<in>set (priv_watchList ?m'). isSoundDecoded e' k"
    proof (intro ballI)
      fix e' k assume e': "e' \<in> set es2" and "k \<in> set (priv_watchList ?m')"
      from keys [OF this(2)] obtain f where "f \<in> set files" and "k = file_key f" by blast
      with h(5) e' show "isSoundDecoded e' k" by blast
    qed
    have na: "\<not> noAudio ?m'" using h(1) by (simp add: setDecodedCallback_fields(2))
    from ticks_live [OF i cb na h(2) k0 ne dec] c show ?thesis by simp
  qed
  from False c safe live show ?thesis by (simp add: Let_def)
qed

theorem setDecodedCallback_once_witness:
  "calls (setDecodedCallback (env_undecoded 0) [Key ''a'', Key ''b''] 7
            (new_SoundManager False True False)) = []
   \<and> calls (ticks [env_undecoded 16, env_ready 32, env_ready 48]
              (setDecodedCallback (env_undecoded 0) [Key ''a'', Key ''b''] 7
                 (new_SoundManager False True False))) = [7]
   \<and> calls (setDecodedCallback (env_ready 0) [Key ''a'', Key ''b''] 7
              (new_SoundManager False True False)) = [7]"
  using setDecodedCallback_once [of "env_undecoded 0" "[Key ''a'', Key ''b'']" 7
      "new_SoundManager False True False"]
    setDecodedCallback_once [of "env_ready 0" "[Key ''a'', Key ''b'']" 7
      "new_SoundManager False True False"]
  by (simp add: Let_def ticks_def setDecodedCallback_def ArraySet_add_def new_SoundManager_def
      SoundManager_update_def update_watch_def env_undecoded_def env_ready_def)

end
